theory Spec2Isabelle
  imports Main "HOL-Library.Sublist" "HOL-Library.Multiset"
begin

section \<open>Strings as the list view model uses them\<close>

text \<open>
  A JavaScript string is modelled as a \<^typ>\<open>string\<close>: a list of code units, here the
  Latin-1 range. \<open>is_space\<close> is the class \<^verbatim>\<open>\s\<close> of the regular expressions (and of
  \<^verbatim>\<open>String.prototype.trim\<close>) on that range: tab, line feed, vertical tab, form feed,
  carriage return, space and no-break space. \<open>lower_char\<close> is the lower-case mapping of
  \<^verbatim>\<open>toLowerCase\<close> on that range: A-Z and the accented capitals C0-DE, except the
  multiplication sign D7.
\<close>

definition is_space :: "char \<Rightarrow> bool" where
  "is_space c = (of_char c \<in> {9, 10, 11, 12, 13, 32, 160 :: nat})"

definition lower_char :: "char \<Rightarrow> char" where
  "lower_char c =
     (let n = of_char c :: nat
      in if (65 \<le> n \<and> n \<le> 90) \<or> (192 \<le> n \<and> n \<le> 222 \<and> n \<noteq> 215)
         then char_of (n + 32) else c)"

definition toLowerCase :: "string \<Rightarrow> string" where
  "toLowerCase s = map lower_char s"

definition trim :: "string \<Rightarrow> string" where
  "trim s = rev (dropWhile is_space (rev (dropWhile is_space s)))"

text \<open>
  \<^verbatim>\<open>q.split(/\s+/)\<close>: the pieces between maximal runs of white space. A run at the
  start or at the end of the string leaves an empty piece there, and the empty string splits
  into one empty piece, as in JavaScript.
\<close>

function split_ws_run :: "string \<Rightarrow> string list" where
  "split_ws_run [] = [[]]"
| "split_ws_run (c # cs) =
     (if is_space c then [] # split_ws_run (dropWhile is_space cs)
      else (let r = split_ws_run cs in (c # hd r) # tl r))"
  by pat_completeness auto
termination
  by (relation "measure length") (auto simp: le_imp_less_Suc length_dropWhile_le)

text \<open>\<^verbatim>\<open>q.split(/\s/)\<close>: every single white-space character separates two pieces.\<close>

fun split_ws_each :: "string \<Rightarrow> string list" where
  "split_ws_each [] = [[]]"
| "split_ws_each (c # cs) =
     (if is_space c then [] # split_ws_each cs
      else (let r = split_ws_each cs in (c # hd r) # tl r))"

text \<open>\<^verbatim>\<open>t.replace(/^#/, "")\<close>: one leading hash sign is removed.\<close>

definition strip_hash :: "string \<Rightarrow> string" where
  "strip_hash t = (case t of [] \<Rightarrow> [] | c # cs \<Rightarrow> if c = CHR ''#'' then cs else t)"

text \<open>\<^verbatim>\<open>fields.join(" ")\<close>: the fields with one space between neighbours.\<close>

fun join_sp :: "string list \<Rightarrow> string" where
  "join_sp [] = []"
| "join_sp [x] = x"
| "join_sp (x # y # ys) = x @ CHR '' '' # join_sp (y # ys)"

text \<open>\<^verbatim>\<open>haystack.includes(t)\<close>: \<open>t\<close> occurs in \<open>haystack\<close> as a contiguous block.\<close>

fun js_includes :: "string \<Rightarrow> string \<Rightarrow> bool" where
  "js_includes [] t = (t = [])"
| "js_includes (c # cs) t = (prefix t (c # cs) \<or> js_includes cs t)"

abbreviation nonempty :: "string \<Rightarrow> bool" where
  "nonempty t \<equiv> t \<noteq> []"

text \<open>\<^verbatim>\<open>params.get(key) ?? fallback\<close>: an absent URL parameter takes the fallback.\<close>

definition param_or :: "string option \<Rightarrow> string \<Rightarrow> string" where
  "param_or p fallback = (case p of None \<Rightarrow> fallback | Some s \<Rightarrow> s)"

section \<open>The plugin record\<close>

text \<open>
  The summary record of \<^verbatim>\<open>types/plugin.ts\<close>. The owner is a user name in the early schema
  and a contributor record in the later one, so the record is polymorphic in it. The later
  schema adds the two release dates. \<open>stars\<close> and \<open>downloads\<close> are optional because the
  view model reads them as \<^verbatim>\<open>p.stars ?? 0\<close>.
\<close>

record 'o plugin =
  plugin_id :: int
  name :: string
  description :: string
  version :: string
  owner :: 'o
  stars :: "int option"
  downloads :: "int option"
  plugin_keywords :: "string list"
  logo :: "string option"

record contributor =
  username :: string
  profile_url :: string
  avatar_url :: string
  contributions :: nat

record 'o dated_plugin = "'o plugin" +
  published :: string
  updated :: string

section \<open>List view model: filtering\<close>

text \<open>
  \<^verbatim>\<open>filtered\<close> of \<^verbatim>\<open>client/src/pages/plugins.tsx\<close>. The first argument is the state
  \<^verbatim>\<open>plugins\<close> (\<open>None\<close> is \<^verbatim>\<open>null\<close>), the second the URL parameter \<^verbatim>\<open>q\<close>.
\<close>

definition filtered_client ::
  "(string, 'm) plugin_scheme list option \<Rightarrow> string option \<Rightarrow> (string, 'm) plugin_scheme list"
where
  "filtered_client plugins q_param =
     (let q = trim (toLowerCase (param_or q_param ''''))
      in case plugins of
           None \<Rightarrow> []
         | Some ps \<Rightarrow>
             if q = [] then ps
             else
               let terms = filter nonempty
                             (map (\<lambda>t. toLowerCase (strip_hash t)) (split_ws_run q))
               in if length terms = 0 then ps
                  else filter
                         (\<lambda>p. let haystack =
                                    toLowerCase
                                      (join_sp ([name p, owner p, description p] @ plugin_keywords p))
                              in list_all (\<lambda>t. js_includes haystack t) terms)
                         ps)"

text \<open>
  \<^verbatim>\<open>filtered\<close> of the later \<^verbatim>\<open>src/pages/Plugins.tsx\<close>: the query is split at every single
  white-space character and the owner field is the owner's user name.
\<close>

definition filtered_src ::
  "(contributor, 'm) plugin_scheme list option \<Rightarrow> string option
     \<Rightarrow> (contributor, 'm) plugin_scheme list"
where
  "filtered_src plugins q_param =
     (let q = trim (toLowerCase (param_or q_param ''''))
      in case plugins of
           None \<Rightarrow> []
         | Some ps \<Rightarrow>
             if q = [] then ps
             else
               let terms = filter nonempty
                             (map (\<lambda>t. toLowerCase (strip_hash t)) (split_ws_each q))
               in if length terms = 0 then ps
                  else filter
                         (\<lambda>p. let haystack =
                                    toLowerCase
                                      (join_sp
                                         ([name p, username (owner p), description p]
                                          @ plugin_keywords p))
                              in list_all (\<lambda>t. js_includes haystack t) terms)
                         ps)"

text \<open>
  The filter as the specification words it: the query is lower-cased and split on white
  space, a leading hash sign is stripped from each term, and a plugin is kept when every
  term occurs in the lower-cased fields joined into one string.
\<close>

definition spec_terms :: "string \<Rightarrow> string list" where
  "spec_terms q = map strip_hash (split_ws_each (toLowerCase q))"

definition spec_match :: "string list \<Rightarrow> string list \<Rightarrow> bool" where
  "spec_match terms fs = (\<forall>t\<in>set terms. sublist t (toLowerCase (join_sp fs)))"

text \<open>The same with the fields taken one by one: each term occurs in some field.\<close>

definition spec_match_fields :: "string list \<Rightarrow> string list \<Rightarrow> bool" where
  "spec_match_fields terms fs =
     (\<forall>t\<in>set terms. \<exists>f\<in>set fs. sublist t (toLowerCase f))"

section \<open>List view model: sorting\<close>

text \<open>
  \<^verbatim>\<open>Array.prototype.sort(compare)\<close> is stable, and for a consistent comparator every
  stable sort gives the same list. It is modelled as insertion from the right: an element
  goes before the first element it does not compare greater than, so equal elements keep
  their order. A comparator result that is \<^verbatim>\<open>NaN\<close> counts as zero, as the language
  defines.
\<close>

fun insort_cmp :: "('a \<Rightarrow> 'a \<Rightarrow> int) \<Rightarrow> 'a \<Rightarrow> 'a list \<Rightarrow> 'a list" where
  "insort_cmp cmp x [] = [x]"
| "insort_cmp cmp x (y # ys) =
     (if cmp x y \<le> 0 then x # y # ys else y # insort_cmp cmp x ys)"

definition js_sort :: "('a \<Rightarrow> 'a \<Rightarrow> int) \<Rightarrow> 'a list \<Rightarrow> 'a list" where
  "js_sort cmp xs = foldr (insort_cmp cmp) xs []"

definition nan_as_zero :: "int option \<Rightarrow> int" where
  "nan_as_zero v = (case v of None \<Rightarrow> 0 | Some n \<Rightarrow> n)"

text \<open>\<^verbatim>\<open>x ?? 0\<close> on an optional count.\<close>

definition or_zero :: "int option \<Rightarrow> int" where
  "or_zero v = (case v of None \<Rightarrow> 0 | Some n \<Rightarrow> n)"

text \<open>
  The two comparators of \<^verbatim>\<open>sorted\<close> in \<^verbatim>\<open>client/src/pages/plugins.tsx\<close>.
  \<^verbatim>\<open>String.prototype.localeCompare\<close> belongs to the host, so it is a parameter.
\<close>

definition compare_downloads ::
  "(string \<Rightarrow> string \<Rightarrow> int) \<Rightarrow> ('o, 'm) plugin_scheme \<Rightarrow> ('o, 'm) plugin_scheme \<Rightarrow> int"
where
  "compare_downloads localeCompare a b =
     (let diff = or_zero (downloads b) - or_zero (downloads a)
      in if diff \<noteq> 0 then diff
         else let starDiff = or_zero (stars b) - or_zero (stars a)
              in if starDiff \<noteq> 0 then starDiff
                 else localeCompare (name a) (name b))"

definition compare_stars ::
  "(string \<Rightarrow> string \<Rightarrow> int) \<Rightarrow> ('o, 'm) plugin_scheme \<Rightarrow> ('o, 'm) plugin_scheme \<Rightarrow> int"
where
  "compare_stars localeCompare a b =
     (let diff = or_zero (stars b) - or_zero (stars a)
      in if diff \<noteq> 0 then diff
         else let dlDiff = or_zero (downloads b) - or_zero (downloads a)
              in if dlDiff \<noteq> 0 then dlDiff
                 else localeCompare (name a) (name b))"

definition sorted_client ::
  "(string \<Rightarrow> string \<Rightarrow> int) \<Rightarrow> ('o, 'm) plugin_scheme list \<Rightarrow> string option
     \<Rightarrow> ('o, 'm) plugin_scheme list"
where
  "sorted_client localeCompare filtered sort_param =
     (let sort_name = toLowerCase (param_or sort_param ''stars'')
      in if sort_name = ''downloads'' then js_sort (compare_downloads localeCompare) filtered
         else js_sort (compare_stars localeCompare) filtered)"

text \<open>
  The comparator of \<^verbatim>\<open>sorted\<close> in the later \<^verbatim>\<open>src/pages/Plugins.tsx\<close>.
  \<open>getTime s\<close> stands for \<^verbatim>\<open>new Date(s).getTime()\<close>, with \<open>None\<close> for the \<^verbatim>\<open>NaN\<close> of an
  unreadable date; a difference with a \<^verbatim>\<open>NaN\<close> operand is \<^verbatim>\<open>NaN\<close>, and \<^verbatim>\<open>NaN !== 0\<close>
  holds. The case \<^verbatim>\<open>"published"\<close> returns from inside the \<^verbatim>\<open>switch\<close>; the other cases
  leave it with \<^verbatim>\<open>break\<close> when their own difference is zero and reach the fallback.
\<close>

definition num_sub :: "int option \<Rightarrow> int option \<Rightarrow> int option" where
  "num_sub x y = (case (x, y) of (Some a, Some b) \<Rightarrow> Some (a - b) | _ \<Rightarrow> None)"

definition fallback_sorting ::
  "(string \<Rightarrow> string \<Rightarrow> int) \<Rightarrow> int option
     \<Rightarrow> ('o, 'm) dated_plugin_scheme \<Rightarrow> ('o, 'm) dated_plugin_scheme \<Rightarrow> int option"
where
  "fallback_sorting localeCompare dateDiff a b =
     (if dateDiff \<noteq> Some 0 then dateDiff
      else let starDiff = or_zero (stars b) - or_zero (stars a)
           in if starDiff \<noteq> 0 then Some starDiff
              else Some (localeCompare (name a) (name b)))"

definition compare_src ::
  "(string \<Rightarrow> int option) \<Rightarrow> (string \<Rightarrow> string \<Rightarrow> int) \<Rightarrow> string
     \<Rightarrow> ('o, 'm) dated_plugin_scheme \<Rightarrow> ('o, 'm) dated_plugin_scheme \<Rightarrow> int option"
where
  "compare_src getTime localeCompare sort_name a b =
     (let dateDiff = num_sub (getTime (updated b)) (getTime (updated a))
      in if sort_name = ''downloads'' then
           (let downloadDiff = or_zero (downloads b) - or_zero (downloads a)
            in if downloadDiff \<noteq> 0 then Some downloadDiff
               else fallback_sorting localeCompare dateDiff a b)
         else if sort_name = ''stars'' then
           (let starDiff = or_zero (stars b) - or_zero (stars a)
            in if starDiff \<noteq> 0 then Some starDiff
               else fallback_sorting localeCompare dateDiff a b)
         else if sort_name = ''published'' then
           num_sub (getTime (published b)) (getTime (published a))
         else
           (if dateDiff \<noteq> Some 0 then dateDiff
            else fallback_sorting localeCompare dateDiff a b))"

definition sorted_src ::
  "(string \<Rightarrow> int option) \<Rightarrow> (string \<Rightarrow> string \<Rightarrow> int)
     \<Rightarrow> ('o, 'm) dated_plugin_scheme list \<Rightarrow> string option
     \<Rightarrow> ('o, 'm) dated_plugin_scheme list"
where
  "sorted_src getTime localeCompare filtered sort_param =
     (let sort_name = toLowerCase (param_or sort_param ''stars'')
      in js_sort (\<lambda>a b. nan_as_zero (compare_src getTime localeCompare sort_name a b)) filtered)"

text \<open>
  A tie-break cascade as the specification words it: numeric keys, each descending, tried
  in order, and a last relation for the elements that tie on all of them. \<open>cascade ks
  final a b\<close> says that \<open>a\<close> may stand before \<open>b\<close>.
\<close>

fun cascade :: "('a \<Rightarrow> int) list \<Rightarrow> ('a \<Rightarrow> 'a \<Rightarrow> bool) \<Rightarrow> 'a \<Rightarrow> 'a \<Rightarrow> bool" where
  "cascade [] final a b = final a b"
| "cascade (k # ks) final a b = (k b < k a \<or> (k b = k a \<and> cascade ks final a b))"

text \<open>The keys of the cascades: the counts, the update time, and the name, ascending.\<close>

definition stars_of :: "('o, 'm) plugin_scheme \<Rightarrow> int" where
  "stars_of p = or_zero (stars p)"

definition downloads_of :: "('o, 'm) plugin_scheme \<Rightarrow> int" where
  "downloads_of p = or_zero (downloads p)"

definition updated_at :: "(string \<Rightarrow> int option) \<Rightarrow> ('o, 'm) dated_plugin_scheme \<Rightarrow> int" where
  "updated_at getTime p = nan_as_zero (getTime (updated p))"

definition by_name ::
  "(string \<Rightarrow> string \<Rightarrow> int) \<Rightarrow> ('o, 'm) plugin_scheme \<Rightarrow> ('o, 'm) plugin_scheme \<Rightarrow> bool"
where
  "by_name localeCompare a b = (localeCompare (name a) (name b) \<le> 0)"

text \<open>
  The publication time as a key, and the last relation of a cascade that leaves the
  elements that tie on every key in any order.
\<close>

definition published_at :: "(string \<Rightarrow> int option) \<Rightarrow> ('o, 'm) dated_plugin_scheme \<Rightarrow> int" where
  "published_at getTime p = nan_as_zero (getTime (published p))"

definition any_order :: "'a \<Rightarrow> 'a \<Rightarrow> bool" where
  "any_order a b = True"

text \<open>
  What makes a \<^verbatim>\<open>localeCompare\<close> an order: any two strings compare one way or the
  other, and the comparison is transitive.
\<close>

definition consistent :: "(string \<Rightarrow> string \<Rightarrow> int) \<Rightarrow> bool" where
  "consistent localeCompare =
     ((\<forall>x y. localeCompare x y \<le> 0 \<or> localeCompare y x \<le> 0)
      \<and> (\<forall>x y z. localeCompare x y \<le> 0 \<and> localeCompare y z \<le> 0
             \<longrightarrow> localeCompare x z \<le> 0))"

section \<open>Sample hosts and sample plugins\<close>

text \<open>
  A \<^verbatim>\<open>localeCompare\<close> that orders strings by their code units, and a \<^verbatim>\<open>Date\<close> that reads
  two time stamps; both stand in for the host where a run is evaluated.
\<close>

fun codeunit_compare :: "string \<Rightarrow> string \<Rightarrow> int" where
  "codeunit_compare [] [] = 0"
| "codeunit_compare [] (b # bs) = - 1"
| "codeunit_compare (a # as) [] = 1"
| "codeunit_compare (a # as) (b # bs) =
     (if (of_char a :: nat) < of_char b then - 1
      else if (of_char b :: nat) < of_char a then 1
      else codeunit_compare as bs)"

definition sample_getTime :: "string \<Rightarrow> int option" where
  "sample_getTime s =
     (if s = ''2024-01-01T00:00:00Z'' then Some 1704067200000
      else if s = ''2024-06-01T00:00:00Z'' then Some 1717200000000
      else None)"

definition plugin_A :: "string plugin" where
  "plugin_A = \<lparr>plugin_id = 1, name = ''A'', description = ''Economy and shops'',
     version = ''1.0.0'', owner = ''alice'', stars = Some 100, downloads = Some 1,
     plugin_keywords = [''economy'', ''Shop''], logo = None\<rparr>"

definition plugin_B :: "string plugin" where
  "plugin_B = \<lparr>plugin_id = 2, name = ''B'', description = ''World edit tools'',
     version = ''0.3.1'', owner = ''bob'', stars = Some 50, downloads = Some 200,
     plugin_keywords = [''world'', ''Shopping''], logo = None\<rparr>"

definition sample_owner :: contributor where
  "sample_owner = \<lparr>username = ''carol'', profile_url = ''https://github.com/carol'',
     avatar_url = ''https://github.com/carol.png'', contributions = 7\<rparr>"

definition plugin_X :: "contributor dated_plugin" where
  "plugin_X = \<lparr>plugin_id = 10, name = ''X'', description = ''first'',
     version = ''1.0.0'', owner = sample_owner, stars = Some 5, downloads = Some 9,
     plugin_keywords = [], logo = None,
     published = ''2024-01-01T00:00:00Z'', updated = ''2024-01-01T00:00:00Z''\<rparr>"

definition plugin_Y :: "contributor dated_plugin" where
  "plugin_Y = \<lparr>plugin_id = 11, name = ''Y'', description = ''second'',
     version = ''2.0.0'', owner = sample_owner, stars = Some 5, downloads = Some 5,
     plugin_keywords = [], logo = None,
     published = ''2024-01-01T00:00:00Z'', updated = ''2024-06-01T00:00:00Z''\<rparr>"

section \<open>The network as the loaders see it\<close>

text \<open>
  \<^verbatim>\<open>fetch\<close> either rejects (no response at all) or resolves to a response with a status
  and a body. The body is kept already decoded at the type the caller reads it at; \<open>None\<close>
  is a body that \<^verbatim>\<open>JSON.parse\<close> or \<^verbatim>\<open>response.json()\<close> refuses. \<open>is_ok\<close> is
  \<^verbatim>\<open>response.ok\<close>.
\<close>

datatype 'a response = Rejected | Response nat "'a option"

definition is_ok :: "nat \<Rightarrow> bool" where
  "is_ok status = (200 \<le> status \<and> status \<le> 299)"

text \<open>
  The requests the loaders issue, by end point: the topic search (\<^verbatim>\<open>ENDPOINT\<close>), a
  repository's \<^verbatim>\<open>package.json\<close> on the raw-content host (full name, branch), its release
  list (full name), the \<^verbatim>\<open>HEAD\<close> probe of its logo (full name, branch), and the two
  end points of the project's own backend (\<^verbatim>\<open>PLUGINS_ENDPOINT\<close>, \<^verbatim>\<open>DETAILS_ENDPOINT/id\<close>).
  The detail page asks, for an owner and a name: the README, a raw URL found in it, a page
  of the release list (with its \<^verbatim>\<open>per_page\<close>), the latest release, the commits of a
  branch, the contributors, and the directory \<^verbatim>\<open>public/gallery\<close>.
\<close>

datatype request =
    Search_topic
  | Raw_package_json string string
  | Repo_releases string
  | Head_logo string string
  | Api_plugins
  | Api_plugin int
  | Repo_readme string string
  | Raw_url string
  | Repo_releases_page string string nat
  | Repo_latest_release string string
  | Repo_commits string string string
  | Repo_contributors string string
  | Repo_gallery string string

datatype error = TypeError | NetworkError | SyntaxError

record repo_item =
  repo_id :: int
  repo_name :: string
  full_name :: string
  repo_description :: string
  owner_login :: string
  stargazers_count :: int
  default_branch :: string

record search_response =
  total_count :: int
  incomplete_results :: bool
  items :: "repo_item list"

text \<open>
  \<^verbatim>\<open>package.json\<close> as the loader reads it. \<open>pkg_keywords\<close> is \<open>None\<close> when the field is
  not an array; an element of the array is \<open>None\<close> when it is not a string.
\<close>

record package_json =
  pkg_version :: "string option"
  pkg_logo :: "string option"
  pkg_keywords :: "string option list option"

record asset =
  asset_name :: string
  download_count :: int

record github_release =
  tag_name :: string
  draft :: bool
  prerelease :: bool
  assets :: "asset list"

record github =
  get_search :: "search_response response"
  get_package_json :: "string \<Rightarrow> string \<Rightarrow> package_json response"
  get_releases :: "string \<Rightarrow> github_release list response"
  head_logo :: "string \<Rightarrow> string \<Rightarrow> unit response"

section \<open>Plugin list loader, direct design\<close>

text \<open>The module state of \<^verbatim>\<open>fetch-plugins.ts\<close>: the array \<^verbatim>\<open>CACHE\<close> and \<^verbatim>\<open>lastFetch\<close>.\<close>

record ('o, 'm) loader =
  CACHE :: "('o, 'm) plugin_scheme list"
  lastFetch :: int

definition CACHE_DURATION :: int where
  "CACHE_DURATION = 5 * 60 * 1000"

definition initial_loader :: "('o, 'm) loader" where
  "initial_loader = \<lparr>CACHE = [], lastFetch = 0\<rparr>"

definition cache_valid :: "int \<Rightarrow> ('o, 'm) loader \<Rightarrow> bool" where
  "cache_valid now st = (now - lastFetch st < CACHE_DURATION \<and> length (CACHE st) > 0)"

definition logo_path :: "repo_item \<Rightarrow> string" where
  "logo_path repo =
     ''https://raw.githubusercontent.com/'' @ full_name repo @ ''/'' @ default_branch repo
       @ ''/public/logo.png''"

definition placeholder_logo :: string where
  "placeholder_logo = ''https://avatars.githubusercontent.com/u/92610726?s=88&v=4''"

definition sum_downloads :: "asset list \<Rightarrow> int" where
  "sum_downloads as = foldl (\<lambda>sum asset. sum + download_count asset) 0 as"

definition string_keywords :: "package_json \<Rightarrow> string list" where
  "string_keywords pkg =
     (case pkg_keywords pkg of
        None \<Rightarrow> []
      | Some ks \<Rightarrow> concat (map (\<lambda>k. case k of None \<Rightarrow> [] | Some s \<Rightarrow> [s]) ks))"

definition make_plugin :: "repo_item \<Rightarrow> package_json \<Rightarrow> github_release \<Rightarrow> string \<Rightarrow> string plugin"
where
  "make_plugin repo pkg latestRelease lg =
     \<lparr>plugin_id = repo_id repo,
      name = repo_name repo,
      description = repo_description repo,
      version = (case pkg_version pkg of None \<Rightarrow> '''' | Some v \<Rightarrow> v),
      owner = owner_login repo,
      stars = Some (stargazers_count repo),
      downloads = Some (sum_downloads (assets latestRelease)),
      plugin_keywords = string_keywords pkg,
      logo = Some lg\<rparr>"

text \<open>
  The body of the candidate loop for one repository. The result is the requests issued and
  either an exception that leaves the loader, or \<open>None\<close> for \<^verbatim>\<open>continue\<close>, or the plugin
  that is pushed.
\<close>

definition process_repo ::
  "github \<Rightarrow> repo_item \<Rightarrow> request list \<times> (error + string plugin option)"
where
  "process_repo net repo =
     (let r1 = Raw_package_json (full_name repo) (default_branch repo);
          r2 = Repo_releases (full_name repo);
          r3 = Head_logo (full_name repo) (default_branch repo)
      in case get_package_json net (full_name repo) (default_branch repo) of
           Rejected \<Rightarrow> ([r1], Inl NetworkError)
         | Response pstatus pbody \<Rightarrow>
             if \<not> is_ok pstatus then ([r1], Inr None)
             else (case pbody of
                     None \<Rightarrow> ([r1], Inl SyntaxError)
                   | Some pkg \<Rightarrow>
             (case get_releases net (full_name repo) of
                Rejected \<Rightarrow> ([r1, r2], Inl NetworkError)
              | Response rstatus rbody \<Rightarrow>
                  if \<not> is_ok rstatus then ([r1, r2], Inr None)
                  else (case rbody of
                          None \<Rightarrow> ([r1, r2], Inl SyntaxError)
                        | Some releases \<Rightarrow>
                  if length releases \<le> 0 then ([r1, r2], Inr None)
                  else
                    (let latestRelease = hd releases
                     in case head_logo net (full_name repo) (default_branch repo) of
                          Rejected \<Rightarrow> ([r1, r2, r3], Inl NetworkError)
                        | Response lstatus lbody \<Rightarrow>
                            (let lg = (if \<not> is_ok lstatus then placeholder_logo
                                       else logo_path repo)
                             in ([r1, r2, r3],
                                 Inr (Some (make_plugin repo pkg latestRelease lg)))))))))"

text \<open>
  \<^verbatim>\<open>for (let i = 0; i < result.total_count; i++)\<close>. Reading \<^verbatim>\<open>result.items[i]\<close> past
  the end of the array gives \<^verbatim>\<open>undefined\<close>, and the next line reads a property of it,
  which throws a \<^verbatim>\<open>TypeError\<close>.
\<close>

function candidate_loop ::
  "github \<Rightarrow> search_response \<Rightarrow> nat \<Rightarrow> string plugin list \<Rightarrow> request list
     \<Rightarrow> request list \<times> (error + string plugin list)"
where
  "candidate_loop net result i plugins log =
     (if int i < total_count result then
        (if i < length (items result) then
           (case process_repo net (items result ! i) of
              (l, Inl e) \<Rightarrow> (log @ l, Inl e)
            | (l, Inr None) \<Rightarrow> candidate_loop net result (Suc i) plugins (log @ l)
            | (l, Inr (Some plugin)) \<Rightarrow>
                candidate_loop net result (Suc i) (plugins @ [plugin]) (log @ l))
         else (log, Inl TypeError))
      else (log, Inr plugins))"
  by pat_completeness auto
termination
  by (relation "measure (\<lambda>(net, result, i, plugins, log). nat (total_count result) - i)") auto

text \<open>The cache update after the loop: a plugin is pushed unless its id is already cached.\<close>

fun merge_cache ::
  "('o, 'm) plugin_scheme list \<Rightarrow> ('o, 'm) plugin_scheme list \<Rightarrow> ('o, 'm) plugin_scheme list"
where
  "merge_cache cache [] = cache"
| "merge_cache cache (plugin # plugins) =
     merge_cache
       (if find (\<lambda>p. plugin_id p = plugin_id plugin) cache = None then cache @ [plugin]
        else cache)
       plugins"

text \<open>
  \<^verbatim>\<open>fetchPlugins\<close> of the direct design. \<open>now\<close> is \<^verbatim>\<open>Date.now()\<close>. The result is the
  value returned (\<open>Inr None\<close> is \<^verbatim>\<open>null\<close>) or the exception thrown, the module state
  afterwards, and the requests issued, in order.
\<close>

definition fetchPlugins_direct ::
  "github \<Rightarrow> int \<Rightarrow> (string, unit) loader
     \<Rightarrow> (error + string plugin list option) \<times> (string, unit) loader \<times> request list"
where
  "fetchPlugins_direct net now st =
     (if now - lastFetch st < CACHE_DURATION \<and> length (CACHE st) > 0
      then (Inr (Some (CACHE st)), st, [])
      else
        (let st1 = st\<lparr>lastFetch := now\<rparr>
         in case get_search net of
              Rejected \<Rightarrow> (Inl NetworkError, st1, [Search_topic])
            | Response status body \<Rightarrow>
                if is_ok status then
                  (case body of
                     None \<Rightarrow> (Inl SyntaxError, st1, [Search_topic])
                   | Some result \<Rightarrow>
                       (case candidate_loop net result 0 [] [Search_topic] of
                          (log, Inl e) \<Rightarrow> (Inl e, st1, log)
                        | (log, Inr plugins) \<Rightarrow>
                            (Inr (Some plugins),
                             st1\<lparr>CACHE := merge_cache (CACHE st1) plugins\<rparr>,
                             log)))
                else (Inr None, st1, [Search_topic])))"

section \<open>Plugin list loader, backend design\<close>

record ('o, 'm) backend =
  get_plugins :: "('o, 'm) plugin_scheme list response"
  get_plugin :: "int \<Rightarrow> ('o, 'm) plugin_scheme response"

text \<open>
  \<^verbatim>\<open>fetchPlugins\<close> of the backend design. Everything after the validity check runs inside
  \<^verbatim>\<open>try\<close>, and the handler returns \<^verbatim>\<open>null\<close>.
\<close>

definition fetchPlugins_backend ::
  "('o, 'm) backend \<Rightarrow> int \<Rightarrow> ('o, 'm) loader
     \<Rightarrow> ('o, 'm) plugin_scheme list option \<times> ('o, 'm) loader \<times> request list"
where
  "fetchPlugins_backend api now st =
     (if now - lastFetch st < CACHE_DURATION \<and> length (CACHE st) > 0
      then (Some (CACHE st), st, [])
      else
        (case get_plugins api of
           Rejected \<Rightarrow> (None, st, [Api_plugins])
         | Response status body \<Rightarrow>
             if \<not> is_ok status then (None, st, [Api_plugins])
             else (case body of
                     None \<Rightarrow> (None, st, [Api_plugins])
                   | Some plugins \<Rightarrow>
                       (Some plugins, st\<lparr>lastFetch := now, CACHE := plugins\<rparr>,
                        [Api_plugins]))))"

text \<open>
  \<^verbatim>\<open>Array.prototype.slice(start, end)\<close>: a copy of a part of the array; the array itself
  stays as it is. Negative positions count from the end.
\<close>

definition js_slice :: "'a list \<Rightarrow> int \<Rightarrow> int \<Rightarrow> 'a list" where
  "js_slice xs start stop =
     (let len = int (length xs);
          k = (if start < 0 then max (len + start) 0 else min start len);
          final = (if stop < 0 then max (len + stop) 0 else min stop len)
      in take (nat (final - k)) (drop (nat k) xs))"

text \<open>
  \<^verbatim>\<open>CACHE.indexOf(plugin)\<close> compares by identity. The plugin searched for is the object
  that \<^verbatim>\<open>response.json()\<close> has just built, which is no element of the array, so the
  search finds nothing.
\<close>

definition indexOf_fresh :: "'a list \<Rightarrow> int" where
  "indexOf_fresh xs = - 1"

text \<open>
  \<^verbatim>\<open>fetchPlugin\<close> of the backend design. The value of \<^verbatim>\<open>CACHE.slice(index, 1)\<close> is
  dropped by the statement it stands in, so it is bound here and not used.
\<close>

definition fetchPlugin ::
  "('o, 'm) backend \<Rightarrow> int \<Rightarrow> int \<Rightarrow> ('o, 'm) loader
     \<Rightarrow> ('o, 'm) plugin_scheme option \<times> ('o, 'm) loader \<times> request list"
where
  "fetchPlugin api now pid st =
     (if now - lastFetch st < CACHE_DURATION \<and> length (CACHE st) > 0
         \<and> list_ex (\<lambda>x. plugin_id x = pid) (CACHE st)
      then (find (\<lambda>x. plugin_id x = pid) (CACHE st), st, [])
      else
        (case get_plugin api pid of
           Rejected \<Rightarrow> (None, st, [Api_plugin pid])
         | Response status body \<Rightarrow>
             if \<not> is_ok status then (None, st, [Api_plugin pid])
             else (case body of
                     None \<Rightarrow> (None, st, [Api_plugin pid])
                   | Some plugin \<Rightarrow>
                       (let index = indexOf_fresh (CACHE st);
                            dropped = (if index \<noteq> 0 then js_slice (CACHE st) index 1 else [])
                        in (Some plugin, st\<lparr>CACHE := CACHE st @ [plugin]\<rparr>,
                            [Api_plugin pid])))))"

text \<open>A run of the backend loader: calls with their time and the backend as it answers then.\<close>

datatype ('o, 'm) call =
    List_fetch int "('o, 'm) backend"
  | Detail_fetch int int "('o, 'm) backend"

fun run_call :: "('o, 'm) call \<Rightarrow> ('o, 'm) loader \<Rightarrow> ('o, 'm) loader" where
  "run_call (List_fetch now api) st = fst (snd (fetchPlugins_backend api now st))"
| "run_call (Detail_fetch now pid api) st = fst (snd (fetchPlugin api now pid st))"

definition run_calls :: "('o, 'm) call list \<Rightarrow> ('o, 'm) loader \<Rightarrow> ('o, 'm) loader" where
  "run_calls cs st = foldl (\<lambda>s c. run_call c s) st cs"

definition unique_ids :: "('o, 'm) plugin_scheme list \<Rightarrow> bool" where
  "unique_ids ps = distinct (map plugin_id ps)"

text \<open>
  What one candidate repository gives on its own: the plugin it contributes to the list, if
  any, and whether its part of the loop runs to its end without an exception.
\<close>

definition listed :: "github \<Rightarrow> repo_item \<Rightarrow> string plugin list" where
  "listed net repo =
     (case snd (process_repo net repo) of Inr (Some plugin) \<Rightarrow> [plugin] | _ \<Rightarrow> [])"

definition completes :: "github \<Rightarrow> repo_item \<Rightarrow> bool" where
  "completes net repo = (case snd (process_repo net repo) of Inl e \<Rightarrow> False | Inr r \<Rightarrow> True)"

text \<open>
  What the candidates of a list give together, taken in order: the first exception, or the
  plugins of the candidates that are not skipped.
\<close>

fun collect :: "github \<Rightarrow> repo_item list \<Rightarrow> error + string plugin list" where
  "collect net [] = Inr []"
| "collect net (repo # repos) =
     (case snd (process_repo net repo) of
        Inl e \<Rightarrow> Inl e
      | Inr None \<Rightarrow> collect net repos
      | Inr (Some plugin) \<Rightarrow>
          (case collect net repos of
             Inl e \<Rightarrow> Inl e
           | Inr plugins \<Rightarrow> Inr (plugin # plugins)))"

text \<open>
  A candidate is answered when no request the loop makes for it is rejected and every
  body the loop parses for it is well formed: its \<^verbatim>\<open>package.json\<close> request is answered,
  and if with success, the body parses and the release-list request is answered, and if
  with success, the body parses and, when it holds a release, the logo probe is answered.
\<close>

definition answered :: "github \<Rightarrow> repo_item \<Rightarrow> bool" where
  "answered net repo =
     (case get_package_json net (full_name repo) (default_branch repo) of
        Rejected \<Rightarrow> False
      | Response pstatus pbody \<Rightarrow>
          \<not> is_ok pstatus
          \<or> (pbody \<noteq> None
             \<and> (case get_releases net (full_name repo) of
                    Rejected \<Rightarrow> False
                  | Response rstatus rbody \<Rightarrow>
                      \<not> is_ok rstatus
                      \<or> (case rbody of
                            None \<Rightarrow> False
                          | Some releases \<Rightarrow>
                              releases = []
                              \<or> head_logo net (full_name repo) (default_branch repo)
                                   \<noteq> Rejected))))"

section \<open>Sample answers of the network\<close>

definition repo_one :: repo_item where
  "repo_one = \<lparr>repo_id = 1, repo_name = ''economy'', full_name = ''alice/economy'',
     repo_description = ''Economy and shops'', owner_login = ''alice'',
     stargazers_count = 100, default_branch = ''main''\<rparr>"

definition repo_two :: repo_item where
  "repo_two = \<lparr>repo_id = 2, repo_name = ''worlds'', full_name = ''bob/worlds'',
     repo_description = ''World edit tools'', owner_login = ''bob'',
     stargazers_count = 50, default_branch = ''main''\<rparr>"

definition repo_three :: repo_item where
  "repo_three = \<lparr>repo_id = 3, repo_name = ''chat'', full_name = ''carol/chat'',
     repo_description = ''Chat filters'', owner_login = ''carol'',
     stargazers_count = 7, default_branch = ''dev''\<rparr>"

definition repo_four :: repo_item where
  "repo_four = \<lparr>repo_id = 4, repo_name = ''homes'', full_name = ''dave/homes'',
     repo_description = ''Home points'', owner_login = ''dave'',
     stargazers_count = 12, default_branch = ''main''\<rparr>"

definition sample_package :: package_json where
  "sample_package = \<lparr>pkg_version = Some ''1.0.0'', pkg_logo = None,
     pkg_keywords = Some [Some ''economy'', None, Some ''shop'']\<rparr>"

definition sample_release :: github_release where
  "sample_release = \<lparr>tag_name = ''v1.0.0'', draft = False, prerelease = False,
     assets = [\<lparr>asset_name = ''plugin.zip'', download_count = 3\<rparr>,
               \<lparr>asset_name = ''plugin.tgz'', download_count = 4\<rparr>]\<rparr>"

definition older_release :: github_release where
  "older_release = \<lparr>tag_name = ''v0.9.0'', draft = False, prerelease = False,
     assets = [\<lparr>asset_name = ''plugin.zip'', download_count = 1000\<rparr>]\<rparr>"

text \<open>
  Four candidates: the first answers every request, the second has no \<^verbatim>\<open>package.json\<close>,
  the release list of the third fails, and the fourth has no logo.
\<close>

definition sample_github :: github where
  "sample_github =
     \<lparr>get_search = Response 200 (Some \<lparr>total_count = 4, incomplete_results = False,
                      items = [repo_one, repo_two, repo_three, repo_four]\<rparr>),
      get_package_json = (\<lambda>fn branch.
         if fn = ''bob/worlds'' then Response 404 None else Response 200 (Some sample_package)),
      get_releases = (\<lambda>fn.
         if fn = ''carol/chat'' then Response 500 None
         else Response 200 (Some [sample_release, older_release])),
      head_logo = (\<lambda>fn branch.
         if fn = ''alice/economy'' then Response 200 None else Response 404 None)\<rparr>"

text \<open>The same, with a search that counts more matches than the page holds.\<close>

definition overcount_github :: github where
  "overcount_github =
     sample_github\<lparr>get_search := Response 200 (Some \<lparr>total_count = 5,
        incomplete_results = False, items = [repo_one, repo_two, repo_three, repo_four]\<rparr>)\<rparr>"

text \<open>
  The same four candidates, with a \<^verbatim>\<open>package.json\<close> of the second that does not parse,
  and with a release-list request of the third that is rejected.
\<close>

definition broken_github :: github where
  "broken_github =
     sample_github\<lparr>get_package_json := (\<lambda>fn branch.
        if fn = ''bob/worlds'' then Response 200 None else Response 200 (Some sample_package))\<rparr>"

definition rejecting_github :: github where
  "rejecting_github =
     sample_github\<lparr>get_releases := (\<lambda>fn.
        if fn = ''carol/chat'' then Rejected
        else Response 200 (Some [sample_release, older_release]))\<rparr>"

definition overcount_rejecting_github :: github where
  "overcount_rejecting_github =
     rejecting_github\<lparr>get_search := Response 200 (Some \<lparr>total_count = 5,
        incomplete_results = False, items = [repo_one, repo_two, repo_three, repo_four]\<rparr>)\<rparr>"

definition failing_github :: github where
  "failing_github = sample_github\<lparr>get_search := Response 403 None\<rparr>"

definition sample_backend :: "(string, unit) backend" where
  "sample_backend =
     \<lparr>get_plugins = Response 200 (Some [plugin_A, plugin_B]),
      get_plugin = (\<lambda>pid. if pid = 1 then Response 200 (Some plugin_A)
                          else if pid = 2 then Response 200 (Some plugin_B)
                          else Response 404 None)\<rparr>"

definition empty_backend :: "(string, unit) backend" where
  "empty_backend = sample_backend\<lparr>get_plugins := Response 200 (Some [])\<rparr>"

definition failing_backend :: "(string, unit) backend" where
  "failing_backend = sample_backend\<lparr>get_plugins := Response 503 None\<rparr>"

definition start_time :: int where
  "start_time = 1700000000000"

section \<open>Detail page, direct design\<close>

text \<open>
  The page \<^verbatim>\<open>PluginDetails\<close> of \<^verbatim>\<open>src/pages/plugin-details.tsx\<close>. Each resource has
  three state variables, as \<^verbatim>\<open>readme\<close>, \<^verbatim>\<open>readmeLoading\<close> and \<^verbatim>\<open>readmeError\<close>; they
  are one slot here (\<open>page_repo\<close> and \<open>page_releases\<close> are the states \<^verbatim>\<open>repo\<close> and
  \<^verbatim>\<open>releases\<close>). \<open>None\<close> in \<open>slot_value\<close> is \<^verbatim>\<open>null\<close>. The messages of the errors
  are kept by their kind: the message built from a response status (its fixed text and
  the status), a fixed message, and the message of an error of the host (a rejected
  \<^verbatim>\<open>fetch\<close>, a body that cannot be read).
\<close>

datatype failure = Status_failure string nat | Format_failure string | Host_failure

record 'a slot =
  slot_value :: "'a option"
  slot_loading :: bool
  slot_error :: "failure option"

datatype tab = Readme_tab | Versions_tab | Changelog_tab | Gallery_tab

record github_commit =
  sha :: string
  commit_message :: string

record github_contributor =
  login :: string
  contribution_count :: nat

datatype content_kind = File_entry | Dir_entry

record github_content =
  content_name :: string
  content_path :: string
  content_kind :: content_kind
  download_url :: "string option"

text \<open>
  The README response: its \<^verbatim>\<open>content-type\<close> header, its body read as JSON (\<open>None\<close> when
  \<^verbatim>\<open>res.json()\<close> rejects) and its body read as text.
\<close>

record readme_json =
  json_content :: "string option"
  json_encoding :: "string option"
  json_download_url :: "string option"

record readme_payload =
  content_type :: "string option"
  as_json :: "readme_json option"
  as_text :: string

record github_api =
  get_readme :: "string \<Rightarrow> string \<Rightarrow> readme_payload response"
  get_raw_text :: "string \<Rightarrow> string response"
  get_releases_page :: "string \<Rightarrow> string \<Rightarrow> nat \<Rightarrow> github_release list response"
  get_latest_release :: "string \<Rightarrow> string \<Rightarrow> github_release response"
  get_commits :: "string \<Rightarrow> string \<Rightarrow> string \<Rightarrow> github_commit list response"
  get_contributors :: "string \<Rightarrow> string \<Rightarrow> github_contributor list response"
  get_gallery :: "string \<Rightarrow> string \<Rightarrow> github_content list response"

text \<open>
  The route parameters, the active tab, the slots, the repository record the page holds
  (only its default branch is read here), and the module-level caches, keyed by
  \<^verbatim>\<open>cacheKey\<close>. The cache of the latest release stores \<^verbatim>\<open>null\<close> too, so its values are
  optional.
\<close>

record page =
  route_owner :: string
  route_name :: string
  tab :: tab
  page_repo :: "repo_item option"
  readme :: "string slot"
  page_releases :: "github_release list slot"
  commits :: "github_commit list slot"
  galleryContent :: "github_content list slot"
  contributors :: "github_contributor list slot"
  latestRelease :: "github_release slot"
  readmeCache :: "string \<rightharpoonup> string"
  releasesCache :: "string \<rightharpoonup> github_release list"
  commitsCache :: "string \<rightharpoonup> github_commit list"
  galleryCache :: "string \<rightharpoonup> github_content list"
  contributorsCache :: "string \<rightharpoonup> github_contributor list"
  latestReleaseCache :: "string \<rightharpoonup> github_release option"

definition cacheKey :: "page \<Rightarrow> string" where
  "cacheKey st = route_owner st @ ''/'' @ route_name st"

text \<open>
  What the \<^verbatim>\<open>try\<close> block of an effect ends in: a value to store, or an error thrown.
  \<open>begin_fetch\<close> is the start of the block (\<^verbatim>\<open>setLoading(true); setError(null)\<close>).
  \<open>settle\<close> is its end: the value is stored, or the handler stores the message, and
  \<^verbatim>\<open>finally\<close> clears the loading flag; all of it only while the effect is alive.
  \<open>alive\<close> is the flag of that name at the time the response arrives.
\<close>

datatype 'a fetched = Stored "'a option" | Thrown failure

definition begin_fetch :: "'a slot \<Rightarrow> 'a slot" where
  "begin_fetch s = s\<lparr>slot_loading := True, slot_error := None\<rparr>"

definition settle :: "bool \<Rightarrow> 'a slot \<Rightarrow> 'a fetched \<Rightarrow> 'a slot" where
  "settle alive s r =
     (if \<not> alive then s
      else case r of
             Stored v \<Rightarrow> s\<lparr>slot_value := v, slot_loading := False\<rparr>
           | Thrown f \<Rightarrow> s\<lparr>slot_error := Some f, slot_loading := False\<rparr>)"

definition cache_set :: "bool \<Rightarrow> (string \<rightharpoonup> 'a) \<Rightarrow> string \<Rightarrow> 'a fetched \<Rightarrow> (string \<rightharpoonup> 'a)"
where
  "cache_set alive cache key r =
     (if \<not> alive then cache
      else case r of
             Stored (Some v) \<Rightarrow> cache(key \<mapsto> v)
           | _ \<Rightarrow> cache)"

text \<open>A string is truthy when it is there and not empty.\<close>

definition truthy :: "string option \<Rightarrow> bool" where
  "truthy s = (case s of None \<Rightarrow> False | Some t \<Rightarrow> t \<noteq> [])"

subsection \<open>README (lazy, tab \<^verbatim>\<open>readme\<close>)\<close>

text \<open>
  \<open>decode\<close> stands for \<^verbatim>\<open>decodeBase64Utf8\<close>, which is built from \<^verbatim>\<open>atob\<close> and
  \<^verbatim>\<open>TextDecoder\<close> of the host; \<open>None\<close> is its exception.
\<close>

definition fetch_readme ::
  "(string \<Rightarrow> string option) \<Rightarrow> github_api \<Rightarrow> string \<Rightarrow> string
     \<Rightarrow> request list \<times> string fetched"
where
  "fetch_readme decode api ow nm =
     (let r1 = Repo_readme ow nm
      in case get_readme api ow nm of
           Rejected \<Rightarrow> ([r1], Thrown Host_failure)
         | Response status body \<Rightarrow>
             if status = 404 then ([r1], Stored (Some ''''))
             else if \<not> is_ok status
               then ([r1], Thrown (Status_failure ''Failed to load README'' status))
             else (case body of
                     None \<Rightarrow> ([r1], Thrown Host_failure)
                   | Some res \<Rightarrow>
             if js_includes (case content_type res of None \<Rightarrow> '''' | Some ct \<Rightarrow> ct)
                  ''application/json''
             then (case as_json res of
                     None \<Rightarrow> ([r1], Thrown Host_failure)
                   | Some json \<Rightarrow>
                       if truthy (json_content json) \<and> json_encoding json = Some ''base64''
                       then (case decode (the (json_content json)) of
                               None \<Rightarrow> ([r1], Thrown Host_failure)
                             | Some md \<Rightarrow> ([r1], Stored (Some md)))
                       else if truthy (json_download_url json)
                       then (let url = the (json_download_url json)
                             in case get_raw_text api url of
                                  Rejected \<Rightarrow> ([r1, Raw_url url], Thrown Host_failure)
                                | Response rstatus None \<Rightarrow>
                                    ([r1, Raw_url url], Thrown Host_failure)
                                | Response rstatus (Some raw) \<Rightarrow>
                                    ([r1, Raw_url url], Stored (Some raw)))
                       else ([r1], Thrown (Format_failure
                                             ''Unexpected README response format.'')))
             else ([r1], Stored (Some (as_text res)))))"

definition readme_effect ::
  "(string \<Rightarrow> string option) \<Rightarrow> github_api \<Rightarrow> bool \<Rightarrow> page \<Rightarrow> request list \<times> page"
where
  "readme_effect decode api alive st =
     (if tab st \<noteq> Readme_tab then ([], st)
      else if slot_value (readme st) \<noteq> None then ([], st)
      else case fetch_readme decode api (route_owner st) (route_name st) of
             (log, r) \<Rightarrow>
               (log, st\<lparr>readme := settle alive (begin_fetch (readme st)) r,
                        readmeCache := cache_set alive (readmeCache st) (cacheKey st) r\<rparr>))"

subsection \<open>Releases (lazy, tab \<^verbatim>\<open>versions\<close>)\<close>

definition fetch_releases ::
  "github_api \<Rightarrow> string \<Rightarrow> string \<Rightarrow> request list \<times> github_release list fetched"
where
  "fetch_releases api ow nm =
     (let r1 = Repo_releases_page ow nm 25
      in case get_releases_page api ow nm 25 of
           Rejected \<Rightarrow> ([r1], Thrown Host_failure)
         | Response status body \<Rightarrow>
             if \<not> is_ok status
               then ([r1], Thrown (Status_failure ''Failed to load releases'' status))
             else (case body of
                     None \<Rightarrow> ([r1], Thrown Host_failure)
                   | Some data \<Rightarrow> ([r1], Stored (Some data))))"

definition releases_effect :: "github_api \<Rightarrow> bool \<Rightarrow> page \<Rightarrow> request list \<times> page" where
  "releases_effect api alive st =
     (if tab st \<noteq> Versions_tab then ([], st)
      else if slot_value (page_releases st) \<noteq> None then ([], st)
      else case fetch_releases api (route_owner st) (route_name st) of
             (log, r) \<Rightarrow>
               (log, st\<lparr>page_releases := settle alive (begin_fetch (page_releases st)) r,
                        releasesCache := cache_set alive (releasesCache st) (cacheKey st) r\<rparr>))"

subsection \<open>Commits (lazy, tab \<^verbatim>\<open>changelog\<close>)\<close>

definition branch_of :: "page \<Rightarrow> string" where
  "branch_of st =
     (case page_repo st of
        None \<Rightarrow> ''HEAD''
      | Some r \<Rightarrow> if default_branch r = [] then ''HEAD'' else default_branch r)"

definition fetch_commits ::
  "github_api \<Rightarrow> string \<Rightarrow> string \<Rightarrow> string \<Rightarrow> request list \<times> github_commit list fetched"
where
  "fetch_commits api ow nm branch =
     (let r1 = Repo_commits ow nm branch
      in case get_commits api ow nm branch of
           Rejected \<Rightarrow> ([r1], Thrown Host_failure)
         | Response status body \<Rightarrow>
             if \<not> is_ok status
               then ([r1], Thrown (Status_failure ''Failed to load commits'' status))
             else (case body of
                     None \<Rightarrow> ([r1], Thrown Host_failure)
                   | Some data \<Rightarrow> ([r1], Stored (Some data))))"

definition commits_effect :: "github_api \<Rightarrow> bool \<Rightarrow> page \<Rightarrow> request list \<times> page" where
  "commits_effect api alive st =
     (if tab st \<noteq> Changelog_tab then ([], st)
      else if slot_value (commits st) \<noteq> None then ([], st)
      else case fetch_commits api (route_owner st) (route_name st) (branch_of st) of
             (log, r) \<Rightarrow>
               (log, st\<lparr>commits := settle alive (begin_fetch (commits st)) r,
                        commitsCache := cache_set alive (commitsCache st) (cacheKey st) r\<rparr>))"

subsection \<open>Gallery (lazy, tab \<^verbatim>\<open>gallery\<close>)\<close>

definition isMediaFile :: "string \<Rightarrow> bool" where
  "isMediaFile filename =
     list_ex (\<lambda>ext. suffix (CHR ''.'' # ext) (toLowerCase filename))
       [''jpg'', ''jpeg'', ''png'', ''gif'', ''webp'', ''svg'', ''mp4'', ''webm'']"

definition fetch_gallery ::
  "github_api \<Rightarrow> string \<Rightarrow> string \<Rightarrow> request list \<times> github_content list fetched"
where
  "fetch_gallery api ow nm =
     (let r1 = Repo_gallery ow nm
      in case get_gallery api ow nm of
           Rejected \<Rightarrow> ([r1], Thrown Host_failure)
         | Response status body \<Rightarrow>
             if status = 404 then ([r1], Stored (Some []))
             else if \<not> is_ok status
               then ([r1], Thrown (Status_failure ''Failed to load gallery content'' status))
             else (case body of
                     None \<Rightarrow> ([r1], Thrown Host_failure)
                   | Some data \<Rightarrow>
                       ([r1], Stored (Some (filter
                          (\<lambda>item. content_kind item = File_entry
                                   \<and> isMediaFile (content_name item)) data)))))"

definition gallery_effect :: "github_api \<Rightarrow> bool \<Rightarrow> page \<Rightarrow> request list \<times> page" where
  "gallery_effect api alive st =
     (if tab st \<noteq> Gallery_tab then ([], st)
      else if slot_value (galleryContent st) \<noteq> None then ([], st)
      else case fetch_gallery api (route_owner st) (route_name st) of
             (log, r) \<Rightarrow>
               (log, st\<lparr>galleryContent := settle alive (begin_fetch (galleryContent st)) r,
                        galleryCache := cache_set alive (galleryCache st) (cacheKey st) r\<rparr>))"

subsection \<open>Latest release (eager)\<close>

definition fetch_latest ::
  "github_api \<Rightarrow> string \<Rightarrow> string \<Rightarrow> request list \<times> github_release fetched"
where
  "fetch_latest api ow nm =
     (let r1 = Repo_latest_release ow nm; r2 = Repo_releases_page ow nm 1
      in case get_latest_release api ow nm of
           Rejected \<Rightarrow> ([r1], Thrown Host_failure)
         | Response status body \<Rightarrow>
             if status = 404 then
               (case get_releases_page api ow nm 1 of
                  Rejected \<Rightarrow> ([r1, r2], Thrown Host_failure)
                | Response status2 body2 \<Rightarrow>
                    if \<not> is_ok status2
                      then ([r1, r2],
                            Thrown (Status_failure ''Failed to load releases'' status2))
                    else (case body2 of
                            None \<Rightarrow> ([r1, r2], Thrown Host_failure)
                          | Some arr \<Rightarrow> ([r1, r2], Stored (find (\<lambda>x. \<not> draft x) arr))))
             else if \<not> is_ok status
               then ([r1], Thrown (Status_failure ''Failed to load latest release'' status))
             else (case body of
                     None \<Rightarrow> ([r1], Thrown Host_failure)
                   | Some data \<Rightarrow> ([r1], Stored (Some data))))"

text \<open>
  The cache of the latest release is written on every value stored, \<^verbatim>\<open>null\<close> included.
\<close>

definition latest_effect :: "github_api \<Rightarrow> bool \<Rightarrow> page \<Rightarrow> request list \<times> page" where
  "latest_effect api alive st =
     (case latestReleaseCache st (cacheKey st) of
        Some cached \<Rightarrow>
          ([], st\<lparr>latestRelease :=
                    (latestRelease st)\<lparr>slot_value := cached, slot_loading := False\<rparr>\<rparr>)
      | None \<Rightarrow>
          (case fetch_latest api (route_owner st) (route_name st) of
             (log, r) \<Rightarrow>
               (log, st\<lparr>latestRelease := settle alive (begin_fetch (latestRelease st)) r,
                        latestReleaseCache :=
                          (if \<not> alive then latestReleaseCache st
                           else case r of
                                  Stored v \<Rightarrow> (latestReleaseCache st)(cacheKey st \<mapsto> v)
                                | Thrown f \<Rightarrow> latestReleaseCache st)\<rparr>)))"

text \<open>What the side bar shows for the latest release.\<close>

definition shows_latest_error :: "page \<Rightarrow> bool" where
  "shows_latest_error st =
     (slot_error (latestRelease st) \<noteq> None \<and> \<not> slot_loading (latestRelease st))"

definition shows_no_releases_yet :: "page \<Rightarrow> bool" where
  "shows_no_releases_yet st =
     (\<not> slot_loading (latestRelease st) \<and> slot_error (latestRelease st) = None
      \<and> slot_value (latestRelease st) = None)"

subsection \<open>Contributors (eager)\<close>

definition fetch_contributors ::
  "github_api \<Rightarrow> string \<Rightarrow> string \<Rightarrow> request list \<times> github_contributor list fetched"
where
  "fetch_contributors api ow nm =
     (let r1 = Repo_contributors ow nm
      in case get_contributors api ow nm of
           Rejected \<Rightarrow> ([r1], Thrown Host_failure)
         | Response status body \<Rightarrow>
             if status = 204 then ([r1], Stored (Some []))
             else if \<not> is_ok status
               then ([r1], Thrown (Status_failure ''Failed to load contributors'' status))
             else (case body of
                     None \<Rightarrow> ([r1], Thrown Host_failure)
                   | Some data \<Rightarrow> ([r1], Stored (Some data))))"

definition contributors_effect :: "github_api \<Rightarrow> bool \<Rightarrow> page \<Rightarrow> request list \<times> page" where
  "contributors_effect api alive st =
     (case contributorsCache st (cacheKey st) of
        Some cached \<Rightarrow>
          ([], st\<lparr>contributors :=
                    (contributors st)\<lparr>slot_value := Some cached, slot_loading := False\<rparr>\<rparr>)
      | None \<Rightarrow>
          (case fetch_contributors api (route_owner st) (route_name st) of
             (log, r) \<Rightarrow>
               (log, st\<lparr>contributors := settle alive (begin_fetch (contributors st)) r,
                        contributorsCache :=
                          cache_set alive (contributorsCache st) (cacheKey st) r\<rparr>)))"

subsection \<open>Opening a page and choosing a tab\<close>

text \<open>
  The first render: every slot starts from its cache (\<^verbatim>\<open>cache.get(cacheKey) ?? null\<close>),
  the tab is \<^verbatim>\<open>readme\<close>. The README, contributor and latest-release slots start loading
  when their value is falsy, the others do not.
\<close>

definition falsy_text :: "string option \<Rightarrow> bool" where
  "falsy_text v = (\<not> truthy v)"

definition open_page :: "page \<Rightarrow> string \<Rightarrow> string \<Rightarrow> page" where
  "open_page caches ow nm =
     (let key = ow @ ''/'' @ nm
      in caches\<lparr>route_owner := ow, route_name := nm, tab := Readme_tab,
           page_repo := None,
           readme := \<lparr>slot_value = readmeCache caches key,
                      slot_loading = falsy_text (readmeCache caches key),
                      slot_error = None\<rparr>,
           page_releases := \<lparr>slot_value = releasesCache caches key, slot_loading = False,
                        slot_error = None\<rparr>,
           commits := \<lparr>slot_value = commitsCache caches key, slot_loading = False,
                       slot_error = None\<rparr>,
           galleryContent := \<lparr>slot_value = galleryCache caches key, slot_loading = False,
                              slot_error = None\<rparr>,
           contributors := \<lparr>slot_value = contributorsCache caches key,
                            slot_loading = (contributorsCache caches key = None),
                            slot_error = None\<rparr>,
           latestRelease := \<lparr>slot_value = (case latestReleaseCache caches key of
                                              None \<Rightarrow> None | Some v \<Rightarrow> v),
                             slot_loading = ((case latestReleaseCache caches key of
                                              None \<Rightarrow> None | Some v \<Rightarrow> v) = None),
                             slot_error = None\<rparr>\<rparr>)"

text \<open>
  The four lazy effects, in the order of the source, as they run after a render in which
  one of their dependencies has changed. Only the effect of the current tab gets past its
  first line, so one network and one \<open>alive\<close> flag serve for the four. A value that an
  effect stores changes a dependency of that effect, which runs once more and returns at
  its second line.
\<close>

definition run_lazy_effects ::
  "(string \<Rightarrow> string option) \<Rightarrow> github_api \<Rightarrow> bool \<Rightarrow> page \<Rightarrow> request list \<times> page"
where
  "run_lazy_effects decode api alive st =
     (case readme_effect decode api alive st of (log1, st1) \<Rightarrow>
      case releases_effect api alive st1 of (log2, st2) \<Rightarrow>
      case commits_effect api alive st2 of (log3, st3) \<Rightarrow>
      case gallery_effect api alive st3 of (log4, st4) \<Rightarrow>
        (log1 @ log2 @ log3 @ log4, st4))"

text \<open>
  The first render of a page: the slots start from the caches, and the effects run.
\<close>

definition mount ::
  "(string \<Rightarrow> string option) \<Rightarrow> github_api \<Rightarrow> bool \<Rightarrow> page \<Rightarrow> string \<Rightarrow> string
     \<Rightarrow> request list \<times> page"
where
  "mount decode api alive caches ow nm =
     run_lazy_effects decode api alive (open_page caches ow nm)"

text \<open>
  \<^verbatim>\<open>onClick={() => setTab(t)}\<close>. Setting the state to the value it has renders nothing
  and runs no effect; setting it to another value changes the dependency \<^verbatim>\<open>tab\<close> of
  the four lazy effects, which run.
\<close>

definition activate_tab ::
  "(string \<Rightarrow> string option) \<Rightarrow> github_api \<Rightarrow> bool \<Rightarrow> tab \<Rightarrow> page \<Rightarrow> request list \<times> page"
where
  "activate_tab decode api alive t st =
     (if t = tab st then ([], st)
      else run_lazy_effects decode api alive (st\<lparr>tab := t\<rparr>))"

text \<open>The resource of a tab: whether its value is there, its error, and its request.\<close>

definition resource_loaded :: "tab \<Rightarrow> page \<Rightarrow> bool" where
  "resource_loaded t st =
     (case t of
        Readme_tab \<Rightarrow> slot_value (readme st) \<noteq> None
      | Versions_tab \<Rightarrow> slot_value (page_releases st) \<noteq> None
      | Changelog_tab \<Rightarrow> slot_value (commits st) \<noteq> None
      | Gallery_tab \<Rightarrow> slot_value (galleryContent st) \<noteq> None)"

definition resource_error :: "tab \<Rightarrow> page \<Rightarrow> failure option" where
  "resource_error t st =
     (case t of
        Readme_tab \<Rightarrow> slot_error (readme st)
      | Versions_tab \<Rightarrow> slot_error (page_releases st)
      | Changelog_tab \<Rightarrow> slot_error (commits st)
      | Gallery_tab \<Rightarrow> slot_error (galleryContent st))"

definition resource_request :: "tab \<Rightarrow> page \<Rightarrow> request" where
  "resource_request t st =
     (case t of
        Readme_tab \<Rightarrow> Repo_readme (route_owner st) (route_name st)
      | Versions_tab \<Rightarrow> Repo_releases_page (route_owner st) (route_name st) 25
      | Changelog_tab \<Rightarrow> Repo_commits (route_owner st) (route_name st) (branch_of st)
      | Gallery_tab \<Rightarrow> Repo_gallery (route_owner st) (route_name st))"


text \<open>
  When the network delivers the resource of a tab: the request is answered, with a
  success and a body that can be read, or with the 404 that the README and the gallery
  take for an absent resource. A README of type JSON has to hold its text in base64
  that decodes, or a download address whose request is answered with a text.
\<close>

definition delivers ::
  "(string \<Rightarrow> string option) \<Rightarrow> github_api \<Rightarrow> tab \<Rightarrow> page \<Rightarrow> bool"
where
  "delivers decode api t st =
     (case t of
        Readme_tab \<Rightarrow>
          (case get_readme api (route_owner st) (route_name st) of
             Rejected \<Rightarrow> False
           | Response status body \<Rightarrow>
               status = 404
               \<or> (is_ok status
                  \<and> (case body of
                        None \<Rightarrow> False
                      | Some res \<Rightarrow>
                          \<not> js_includes (case content_type res of None \<Rightarrow> '''' | Some ct \<Rightarrow> ct)
                               ''application/json''
                          \<or> (case as_json res of
                                None \<Rightarrow> False
                              | Some json \<Rightarrow>
                                  if truthy (json_content json)
                                     \<and> json_encoding json = Some ''base64''
                                  then decode (the (json_content json)) \<noteq> None
                                  else truthy (json_download_url json)
                                     \<and> (case get_raw_text api (the (json_download_url json)) of
                                            Rejected \<Rightarrow> False
                                          | Response rstatus raw \<Rightarrow> raw \<noteq> None)))))
      | Versions_tab \<Rightarrow>
          (case get_releases_page api (route_owner st) (route_name st) 25 of
             Rejected \<Rightarrow> False
           | Response status body \<Rightarrow> is_ok status \<and> body \<noteq> None)
      | Changelog_tab \<Rightarrow>
          (case get_commits api (route_owner st) (route_name st) (branch_of st) of
             Rejected \<Rightarrow> False
           | Response status body \<Rightarrow> is_ok status \<and> body \<noteq> None)
      | Gallery_tab \<Rightarrow>
          (case get_gallery api (route_owner st) (route_name st) of
             Rejected \<Rightarrow> False
           | Response status body \<Rightarrow> status = 404 \<or> (is_ok status \<and> body \<noteq> None)))"

section \<open>Sample pages and sample answers for the detail page\<close>

definition draft_release :: github_release where
  "draft_release = \<lparr>tag_name = ''v2.0.0'', draft = True, prerelease = False, assets = []\<rparr>"

definition no_caches :: page where
  "no_caches =
     \<lparr>route_owner = '''', route_name = '''', tab = Readme_tab, page_repo = None,
      readme = \<lparr>slot_value = None, slot_loading = False, slot_error = None\<rparr>,
      page_releases = \<lparr>slot_value = None, slot_loading = False, slot_error = None\<rparr>,
      commits = \<lparr>slot_value = None, slot_loading = False, slot_error = None\<rparr>,
      galleryContent = \<lparr>slot_value = None, slot_loading = False, slot_error = None\<rparr>,
      contributors = \<lparr>slot_value = None, slot_loading = False, slot_error = None\<rparr>,
      latestRelease = \<lparr>slot_value = None, slot_loading = False, slot_error = None\<rparr>,
      readmeCache = Map.empty, releasesCache = Map.empty, commitsCache = Map.empty,
      galleryCache = Map.empty, contributorsCache = Map.empty,
      latestReleaseCache = Map.empty\<rparr>"

definition fresh_page :: page where
  "fresh_page = open_page no_caches ''alice'' ''economy''"

text \<open>
  A repository without README, gallery and contributors, whose latest-release end point
  answers 404 and whose release list starts with a draft; a request for the release list
  is answered with as many entries as it asks for. \<open>decode\<close> is not reached.
\<close>

definition bare_api :: github_api where
  "bare_api =
     \<lparr>get_readme = (\<lambda>ow nm. Response 404 None),
      get_raw_text = (\<lambda>url. Rejected),
      get_releases_page = (\<lambda>ow nm per_page.
         Response 200 (Some (take per_page [draft_release, sample_release]))),
      get_latest_release = (\<lambda>ow nm. Response 404 None),
      get_commits = (\<lambda>ow nm branch. Response 409 None),
      get_contributors = (\<lambda>ow nm. Response 204 None),
      get_gallery = (\<lambda>ow nm. Response 404 None)\<rparr>"

text \<open>The same with nothing but a draft in the release list.\<close>

definition drafts_api :: github_api where
  "drafts_api =
     bare_api\<lparr>get_releases_page := (\<lambda>ow nm per_page.
        Response 200 (Some (take per_page [draft_release])))\<rparr>"

text \<open>The same with a release list that starts with a release that is not a draft.\<close>

definition released_api :: github_api where
  "released_api =
     bare_api\<lparr>get_releases_page := (\<lambda>ow nm per_page.
        Response 200 (Some (take per_page [sample_release, draft_release, older_release])))\<rparr>"

text \<open>The same with a release list and a contributor list that are refused or missing.\<close>

definition refusing_api :: github_api where
  "refusing_api =
     bare_api\<lparr>get_releases_page := (\<lambda>ow nm per_page. Response 403 None),
              get_contributors := (\<lambda>ow nm. Response 404 None),
              get_readme := (\<lambda>ow nm. Response 500 None),
              get_gallery := (\<lambda>ow nm. Response 500 None)\<rparr>"

text \<open>The bare repository with an empty commit list that is served.\<close>

definition serving_api :: github_api where
  "serving_api = bare_api\<lparr>get_commits := (\<lambda>ow nm branch. Response 200 (Some []))\<rparr>"

definition no_decode :: "string \<Rightarrow> string option" where
  "no_decode s = None"

text \<open>
  The page after a visit of every tab of the served repository: gallery, versions,
  change log, and README again.
\<close>

definition visited_page :: page where
  "visited_page =
     snd (activate_tab no_decode serving_api True Readme_tab
       (snd (activate_tab no_decode serving_api True Changelog_tab
         (snd (activate_tab no_decode serving_api True Versions_tab
           (snd (activate_tab no_decode serving_api True Gallery_tab fresh_page)))))))"

section \<open>Facts about the string operations\<close>

lemma of_char_lower: "of_char (lower_char c) = (let n = of_char c :: nat
      in if (65 \<le> n \<and> n \<le> 90) \<or> (192 \<le> n \<and> n \<le> 222 \<and> n \<noteq> 215)
         then n + 32 else n)"
  by (simp add: lower_char_def Let_def)


lemma lower_char_idem: "lower_char (lower_char c) = lower_char c"
proof -
  have "(of_char (lower_char (lower_char c)) :: nat) = of_char (lower_char c)"
    by (simp add: of_char_lower Let_def)
  then show ?thesis by (simp only: of_char_eq_iff)
qed

lemma is_space_lower_char: "is_space (lower_char c) = is_space c"
  by (simp add: is_space_def of_char_lower Let_def)

lemma lower_char_hash: "(lower_char c = CHR ''#'') = (c = CHR ''#'')"
proof -
  have "((of_char (lower_char c) :: nat) = of_char (CHR ''#'')) = ((of_char c :: nat) = of_char (CHR ''#''))"
    by (simp add: of_char_lower Let_def)
  then show ?thesis by (simp only: of_char_eq_iff)
qed

lemma space_is_space: "is_space (CHR '' '')"
  by (simp add: is_space_def)

lemma includes_sublist: "js_includes h t = sublist t h"
  by (induction h) (auto simp: sublist_Cons_right)

lemma split_ws_each_ne: "split_ws_each s \<noteq> []"
  by (induction s) (auto simp: Let_def)

lemma split_ws_run_ne: "split_ws_run s \<noteq> []"
  by (induction s rule: split_ws_run.induct) (auto simp: Let_def)

lemma split_ws_each_append:
  "is_space c \<Longrightarrow> split_ws_each (xs @ c # ys) = split_ws_each xs @ split_ws_each ys"
  by (induction xs) (auto simp: Let_def split_ws_each_ne)

lemma split_ws_each_no_space:
  "w \<in> set (split_ws_each s) \<Longrightarrow> c \<in> set w \<Longrightarrow> \<not> is_space c"
proof (induction s arbitrary: w)
  case Nil
  then show ?case by simp
next
  case (Cons a s)
  show ?case
  proof (cases "is_space a")
    case True
    with Cons show ?thesis by auto
  next
    case False
    with Cons.prems have "w = a # hd (split_ws_each s) \<or> w \<in> set (tl (split_ws_each s))"
      by (simp add: Let_def)
    then show ?thesis
    proof
      assume "w = a # hd (split_ws_each s)"
      with Cons.prems False Cons.IH [of "hd (split_ws_each s)"] split_ws_each_ne [of s]
      show ?thesis by auto
    next
      assume "w \<in> set (tl (split_ws_each s))"
      then have "w \<in> set (split_ws_each s)" by (rule list.set_sel(2) [rotated]) (simp add: split_ws_each_ne)
      with Cons show ?thesis by blast
    qed
  qed
qed


lemma split_ws_each_dropWhile:
  "filter nonempty (split_ws_each (dropWhile is_space s)) = filter nonempty (split_ws_each s)"
  by (induction s) auto

lemma filter_nonempty_hd_tl:
  "r \<noteq> [] \<Longrightarrow> filter nonempty r = (if hd r = [] then [] else [hd r]) @ filter nonempty (tl r)"
  by (cases r) auto

lemma split_ws_run_each_aux:
  "hd (split_ws_run s) = hd (split_ws_each s) \<and>
   filter nonempty (tl (split_ws_run s)) = filter nonempty (tl (split_ws_each s))"
proof (induction s rule: split_ws_run.induct)
  case 1
  then show ?case by simp
next
  case (2 c cs)
  show ?case
  proof (cases "is_space c")
    case True
    from 2(1) [OF True]
    have "filter nonempty (split_ws_run (dropWhile is_space cs)) =
          filter nonempty (split_ws_each (dropWhile is_space cs))"
      by (simp add: filter_nonempty_hd_tl split_ws_run_ne split_ws_each_ne)
    with True show ?thesis by (simp add: split_ws_each_dropWhile)
  next
    case False
    with 2(2) show ?thesis by (simp add: Let_def)
  qed
qed

lemma split_ws_run_each:
  "filter nonempty (split_ws_run s) = filter nonempty (split_ws_each s)"
  using split_ws_run_each_aux [of s]
  by (simp add: filter_nonempty_hd_tl split_ws_run_ne split_ws_each_ne)

lemma split_ws_each_all_space:
  "\<forall>c\<in>set ws. is_space c \<Longrightarrow> filter nonempty (split_ws_each ws) = []"
  by (induction ws) auto

lemma split_ws_each_trailing:
  assumes "\<forall>c\<in>set ws. is_space c"
  shows "filter nonempty (split_ws_each (xs @ ws)) = filter nonempty (split_ws_each xs)"
proof (cases ws)
  case Nil
  then show ?thesis by simp
next
  case (Cons c ws')
  with assms have "is_space c" and "\<forall>c\<in>set ws'. is_space c" by auto
  then show ?thesis
    by (simp add: Cons split_ws_each_append split_ws_each_all_space)
qed

lemma split_ws_each_rev_dropWhile:
  "filter nonempty (split_ws_each (rev (dropWhile is_space (rev s)))) =
   filter nonempty (split_ws_each s)"
proof -
  have "s = rev (dropWhile is_space (rev s)) @ rev (takeWhile is_space (rev s))"
    by (metis rev_append rev_rev_ident takeWhile_dropWhile_id)
  moreover have "\<forall>c\<in>set (rev (takeWhile is_space (rev s))). is_space c"
    by (auto dest: set_takeWhileD)
  ultimately show ?thesis
    using split_ws_each_trailing by metis
qed

lemma split_ws_each_trim:
  "filter nonempty (split_ws_each (trim s)) = filter nonempty (split_ws_each s)"
  by (simp add: trim_def split_ws_each_rev_dropWhile split_ws_each_dropWhile)

lemma split_ws_each_lower:
  "split_ws_each (map lower_char s) = map (map lower_char) (split_ws_each s)"
  by (induction s) (auto simp: Let_def is_space_lower_char split_ws_each_ne hd_map map_tl)

lemma strip_hash_lower:
  "toLowerCase (strip_hash (map lower_char w)) = strip_hash (map lower_char w)"
  by (cases w) (auto simp: strip_hash_def toLowerCase_def lower_char_idem)

lemma set_strip_hash: "set (strip_hash t) \<subseteq> set t"
  by (cases t) (auto simp: strip_hash_def)

lemma filter_nonempty_map:
  "f [] = [] \<Longrightarrow> filter nonempty (map f (filter nonempty xs)) = filter nonempty (map f xs)"
  by (induction xs) auto

section \<open>The filter of the list view model\<close>

lemma code_terms_each:
  "set (filter nonempty (map (\<lambda>t. toLowerCase (strip_hash t)) (split_ws_each (trim (toLowerCase q)))))
     = set (spec_terms q) - {[]}"
proof -
  let ?f = "\<lambda>t. toLowerCase (strip_hash t)"
  have f0: "?f [] = []" by (simp add: strip_hash_def toLowerCase_def)
  have "filter nonempty (map ?f (split_ws_each (trim (toLowerCase q))))
        = filter nonempty (map ?f (filter nonempty (split_ws_each (trim (toLowerCase q)))))"
    using filter_nonempty_map [of ?f, OF f0] by simp
  also have "\<dots> = filter nonempty (map ?f (filter nonempty (split_ws_each (toLowerCase q))))"
    by (simp only: split_ws_each_trim)
  also have "\<dots> = filter nonempty (map ?f (split_ws_each (toLowerCase q)))"
    using filter_nonempty_map [of ?f, OF f0] by simp
  also have "map ?f (split_ws_each (toLowerCase q)) = map strip_hash (split_ws_each (toLowerCase q))"
    by (simp add: toLowerCase_def split_ws_each_lower strip_hash_lower [unfolded toLowerCase_def])
  finally show ?thesis by (auto simp: spec_terms_def)
qed

lemma code_terms_run:
  "set (filter nonempty (map (\<lambda>t. toLowerCase (strip_hash t)) (split_ws_run (trim (toLowerCase q)))))
     = set (spec_terms q) - {[]}"
proof -
  let ?f = "\<lambda>t. toLowerCase (strip_hash t)"
  have f0: "?f [] = []" by (simp add: strip_hash_def toLowerCase_def)
  have "filter nonempty (map ?f (split_ws_run (trim (toLowerCase q))))
        = filter nonempty (map ?f (filter nonempty (split_ws_run (trim (toLowerCase q)))))"
    using filter_nonempty_map [of ?f, OF f0] by simp
  also have "\<dots> = filter nonempty (map ?f (filter nonempty (split_ws_each (trim (toLowerCase q)))))"
    by (simp only: split_ws_run_each)
  also have "\<dots> = filter nonempty (map ?f (split_ws_each (trim (toLowerCase q))))"
    using filter_nonempty_map [of ?f, OF f0] by simp
  finally show ?thesis by (simp only: code_terms_each)
qed

lemma sublist_no_sep:
  assumes "c \<notin> set t"
  shows "sublist t (xs @ c # ys) \<longleftrightarrow> sublist t xs \<or> sublist t ys"
proof
  assume "sublist t (xs @ c # ys)"
  then obtain ps ss where eq: "xs @ c # ys = ps @ t @ ss"
    by (auto simp: sublist_def)
  then consider us where "xs = ps @ us" "us @ c # ys = t @ ss"
    | us where "xs @ us = ps" "c # ys = us @ t @ ss"
    by (auto simp: append_eq_append_conv2)
  then show "sublist t xs \<or> sublist t ys"
  proof cases
    case 1
    from 1(2) consider vs where "us = t @ vs" | vs where "us @ vs = t" "c # ys = vs @ ss"
      by (auto simp: append_eq_append_conv2)
    then show ?thesis
    proof cases
      case 1
      with \<open>xs = ps @ us\<close> show ?thesis by (auto simp: sublist_def)
    next
      case 2
      with assms have "vs = []" by (cases vs) auto
      with 2 \<open>xs = ps @ us\<close> have "xs = ps @ t" by simp
      then show ?thesis by simp
    qed
  next
    case 2
    show ?thesis
    proof (cases us)
      case Nil
      with 2 assms have "t = []" by (cases t) auto
      then show ?thesis by simp
    next
      case (Cons u us')
      with 2 have "ys = us' @ t @ ss" by simp
      then show ?thesis by simp
    qed
  qed
next
  assume "sublist t xs \<or> sublist t ys"
  then show "sublist t (xs @ c # ys)"
    by (metis sublist_append sublist_Cons_right)
qed

lemma toLowerCase_join_sp: "toLowerCase (join_sp fs) = join_sp (map toLowerCase fs)"
  by (induction fs rule: join_sp.induct) (auto simp: toLowerCase_def lower_char_def Let_def)

lemma sublist_join_sp:
  "c = CHR '' '' \<Longrightarrow> c \<notin> set t \<Longrightarrow> fs \<noteq> [] \<Longrightarrow> sublist t (join_sp fs) \<longleftrightarrow> (\<exists>f\<in>set fs. sublist t f)"
  by (induction fs rule: join_sp.induct) (auto simp: sublist_no_sep)

lemma spec_terms_no_space: "t \<in> set (spec_terms q) \<Longrightarrow> CHR '' '' \<notin> set t"
  using split_ws_each_no_space set_strip_hash space_is_space
  by (fastforce simp: spec_terms_def)

lemma all_terms_nonempty:
  "set T = set S - {[]} \<Longrightarrow> list_all (js_includes h) T = (\<forall>t\<in>set S. sublist t h)"
  by (auto simp: list_all_iff includes_sublist)

lemma filtered_client_spec:
  "filtered_client (Some ps) qp =
     filter (\<lambda>p. spec_match (spec_terms (param_or qp ''''))
                   (name p # owner p # description p # plugin_keywords p)) ps"
proof -
  let ?q = "trim (toLowerCase (param_or qp ''''))"
  let ?T = "filter nonempty (map (\<lambda>t. toLowerCase (strip_hash t)) (split_ws_run ?q))"
  let ?h = "\<lambda>p. toLowerCase (join_sp ([name p, owner p, description p] @ plugin_keywords p))"
  have "filtered_client (Some ps) qp = filter (\<lambda>p. list_all (js_includes (?h p)) ?T) ps"
  proof (cases "?q = [] \<or> ?T = []")
    case True
    then have "?T = []" by (auto simp: strip_hash_def toLowerCase_def)
    then show ?thesis by (simp add: filtered_client_def Let_def)
  next
    case False
    then show ?thesis by (simp add: filtered_client_def Let_def)
  qed
  also have "\<dots> = filter (\<lambda>p. \<forall>t\<in>set (spec_terms (param_or qp '''')). sublist t (?h p)) ps"
    by (simp only: all_terms_nonempty [OF code_terms_run])
  finally show ?thesis by (simp add: spec_match_def)
qed

lemma filtered_src_spec:
  "filtered_src (Some ps) qp =
     filter (\<lambda>p. spec_match (spec_terms (param_or qp ''''))
                   (name p # username (owner p) # description p # plugin_keywords p)) ps"
proof -
  let ?q = "trim (toLowerCase (param_or qp ''''))"
  let ?T = "filter nonempty (map (\<lambda>t. toLowerCase (strip_hash t)) (split_ws_each ?q))"
  let ?h = "\<lambda>p. toLowerCase (join_sp ([name p, username (owner p), description p] @ plugin_keywords p))"
  have "filtered_src (Some ps) qp = filter (\<lambda>p. list_all (js_includes (?h p)) ?T) ps"
  proof (cases "?q = [] \<or> ?T = []")
    case True
    then have "?T = []" by (auto simp: strip_hash_def toLowerCase_def)
    then show ?thesis by (simp add: filtered_src_def Let_def)
  next
    case False
    then show ?thesis by (simp add: filtered_src_def Let_def)
  qed
  also have "\<dots> = filter (\<lambda>p. \<forall>t\<in>set (spec_terms (param_or qp '''')). sublist t (?h p)) ps"
    by (simp only: all_terms_nonempty [OF code_terms_each])
  finally show ?thesis by (simp add: spec_match_def)
qed

lemma spec_match_by_fields:
  "spec_match (spec_terms q) (n # ow # d # ks) = spec_match_fields (spec_terms q) (n # ow # d # ks)"
proof -
  have "sublist t (toLowerCase (join_sp fs)) = (\<exists>f\<in>set fs. sublist t (toLowerCase f))"
    if "t \<in> set (spec_terms q)" and "fs \<noteq> []" for t fs
    using that sublist_join_sp [OF refl spec_terms_no_space, of t q "map toLowerCase fs"]
    by (simp add: toLowerCase_join_sp)
  then show ?thesis
    unfolding spec_match_def spec_match_fields_def by blast
qed

section \<open>The sort of the list view model\<close>

lemma mset_insort_cmp: "mset (insort_cmp cmp x xs) = add_mset x (mset xs)"
  by (induction xs) auto

lemma mset_js_sort: "mset (js_sort cmp xs) = mset xs"
  by (induction xs) (auto simp: js_sort_def mset_insort_cmp)

lemma set_insort_cmp: "set (insort_cmp cmp x xs) = insert x (set xs)"
  by (induction xs) auto

lemma set_js_sort: "set (js_sort cmp xs) = set xs"
  by (induction xs) (auto simp: js_sort_def set_insort_cmp)

text \<open>
  When the comparator agrees, on the elements of the list, with a relation that is total
  and transitive, the sorted list is ordered by that relation.
\<close>

lemma sorted_insort_rel:
  assumes agree: "\<And>y. y \<in> set ys \<Longrightarrow> (cmp x y \<le> 0) = R x y"
    and total: "\<And>a b. R a b \<or> R b a"
    and trans: "\<And>a b c. R a b \<Longrightarrow> R b c \<Longrightarrow> R a c"
    and sorted: "sorted_wrt R ys"
  shows "sorted_wrt R (insort_cmp cmp x ys)"
  using agree sorted
proof (induction ys)
  case Nil
  then show ?case by simp
next
  case (Cons y ys)
  show ?case
  proof (cases "cmp x y \<le> 0")
    case True
    with Cons.prems(1) [of y] have "R x y" by simp
    with Cons.prems(2) trans have "\<forall>z\<in>set ys. R x z" by auto
    with True \<open>R x y\<close> Cons.prems(2) show ?thesis by simp
  next
    case False
    with Cons.prems(1) [of y] have "\<not> R x y" by simp
    with total have "R y x" by blast
    moreover have "sorted_wrt R (insort_cmp cmp x ys)"
      using Cons.IH Cons.prems by simp
    ultimately show ?thesis using False Cons.prems(2) by (simp add: set_insort_cmp)
  qed
qed

lemma sorted_js_sort_rel:
  assumes "\<And>x y. x \<in> set xs \<Longrightarrow> y \<in> set xs \<Longrightarrow> (cmp x y \<le> 0) = R x y"
    and "\<And>a b. R a b \<or> R b a"
    and "\<And>a b c. R a b \<Longrightarrow> R b c \<Longrightarrow> R a c"
  shows "sorted_wrt R (js_sort cmp xs)"
  using assms(1)
proof (induction xs)
  case Nil
  then show ?case by (simp add: js_sort_def)
next
  case (Cons x xs)
  have "sorted_wrt R (js_sort cmp xs)"
    using Cons.IH Cons.prems by simp
  moreover have "(cmp x y \<le> 0) = R x y" if "y \<in> set (js_sort cmp xs)" for y
    using that Cons.prems by (simp add: set_js_sort)
  ultimately have "sorted_wrt R (insort_cmp cmp x (js_sort cmp xs))"
    using assms(2) assms(3) by (rule sorted_insort_rel [rotated 3])
  then show ?case by (simp add: js_sort_def)
qed

lemma cascade_total:
  assumes "\<And>a b. final a b \<or> final b a"
  shows "cascade ks final a b \<or> cascade ks final b a"
  using assms by (induction ks) auto

lemma cascade_trans:
  assumes "\<And>a b c. final a b \<Longrightarrow> final b c \<Longrightarrow> final a c"
  shows "cascade ks final a b \<Longrightarrow> cascade ks final b c \<Longrightarrow> cascade ks final a c"
proof (induction ks)
  case Nil
  then show ?case using assms by auto
next
  case (Cons k ks)
  then show ?case by auto
qed

lemma by_name_total: "consistent lc \<Longrightarrow> by_name lc a b \<or> by_name lc b a"
  unfolding consistent_def by_name_def by blast

lemma by_name_trans: "consistent lc \<Longrightarrow> by_name lc a b \<Longrightarrow> by_name lc b c \<Longrightarrow> by_name lc a c"
  unfolding consistent_def by_name_def by blast

text \<open>The comparators of the early page are the two documented cascades.\<close>

lemma compare_stars_cascade:
  "(compare_stars lc a b \<le> 0) = cascade [stars_of, downloads_of] (by_name lc) a b"
  by (auto simp: compare_stars_def stars_of_def downloads_of_def by_name_def Let_def)

lemma compare_downloads_cascade:
  "(compare_downloads lc a b \<le> 0) = cascade [downloads_of, stars_of] (by_name lc) a b"
  by (auto simp: compare_downloads_def stars_of_def downloads_of_def by_name_def Let_def)

text \<open>
  The comparator of the later page, when both update dates can be read: under the keys
  \<^verbatim>\<open>"downloads"\<close> and \<^verbatim>\<open>"stars"\<close> the own count, then the update date, then the stars,
  then the name; under \<^verbatim>\<open>"updated"\<close> and any unknown key the update date, then the stars,
  then the name.
\<close>

lemma compare_src_cascade:
  assumes "getTime (updated a) \<noteq> None" "getTime (updated b) \<noteq> None"
  shows "(nan_as_zero (compare_src getTime lc ''downloads'' a b) \<le> 0)
           = cascade [downloads_of, updated_at getTime, stars_of] (by_name lc) a b"
    and "(nan_as_zero (compare_src getTime lc ''stars'' a b) \<le> 0)
           = cascade [stars_of, updated_at getTime, stars_of] (by_name lc) a b"
    and "sort_name \<noteq> ''downloads'' \<Longrightarrow> sort_name \<noteq> ''stars'' \<Longrightarrow> sort_name \<noteq> ''published''
         \<Longrightarrow> (nan_as_zero (compare_src getTime lc sort_name a b) \<le> 0)
               = cascade [updated_at getTime, stars_of] (by_name lc) a b"
  using assms
  by (auto simp: compare_src_def fallback_sorting_def num_sub_def nan_as_zero_def
      stars_of_def downloads_of_def updated_at_def by_name_def Let_def)

text \<open>
  The key \<^verbatim>\<open>"published"\<close> compares the publication dates and nothing else: two plugins
  published at the same time compare equal, whatever their update dates, stars and names.
\<close>

lemma compare_src_published_tie:
  "published a = published b
   \<Longrightarrow> nan_as_zero (compare_src getTime lc ''published'' a b) = 0"
  by (cases "getTime (published b)") (auto simp: compare_src_def num_sub_def nan_as_zero_def)

text \<open>The sample \<^verbatim>\<open>localeCompare\<close> is an order.\<close>

lemma codeunit_compare_total: "codeunit_compare x y \<le> 0 \<or> codeunit_compare y x \<le> 0"
  by (induction x y rule: codeunit_compare.induct) auto

lemma codeunit_compare_Cons:
  "(codeunit_compare (a # as) (b # bs) \<le> 0) =
     ((of_char a :: nat) < of_char b
      \<or> ((of_char a :: nat) = of_char b \<and> codeunit_compare as bs \<le> 0))"
  by auto

lemma codeunit_compare_trans:
  "codeunit_compare x y \<le> 0 \<Longrightarrow> codeunit_compare y z \<le> 0 \<Longrightarrow> codeunit_compare x z \<le> 0"
proof (induction x arbitrary: y z)
  case Nil
  then show ?case by (cases z) simp_all
next
  case (Cons a as)
  from Cons.prems(1) obtain b bs where y: "y = b # bs" by (cases y) auto
  from Cons.prems(2) y obtain c cs where z: "z = c # cs" by (cases z) auto
  from Cons.prems y z
  have xy: "(of_char a :: nat) < of_char b
            \<or> ((of_char a :: nat) = of_char b \<and> codeunit_compare as bs \<le> 0)"
    and yz: "(of_char b :: nat) < of_char c
            \<or> ((of_char b :: nat) = of_char c \<and> codeunit_compare bs cs \<le> 0)"
    by (simp_all only: codeunit_compare_Cons)
  have "(of_char a :: nat) < of_char c
        \<or> ((of_char a :: nat) = of_char c \<and> codeunit_compare as cs \<le> 0)"
  proof (cases "(of_char a :: nat) = of_char b \<and> (of_char b :: nat) = of_char c")
    case True
    with xy yz have "codeunit_compare as bs \<le> 0" "codeunit_compare bs cs \<le> 0" by auto
    then have "codeunit_compare as cs \<le> 0" by (rule Cons.IH)
    with True show ?thesis by simp
  next
    case False
    with xy yz show ?thesis by linarith
  qed
  then show ?case by (simp only: z codeunit_compare_Cons)
qed

lemma consistent_codeunit_compare: "consistent codeunit_compare"
  unfolding consistent_def
proof (intro conjI allI impI)
  fix x y
  show "codeunit_compare x y \<le> 0 \<or> codeunit_compare y x \<le> 0"
    by (rule codeunit_compare_total)
next
  fix x y z
  assume "codeunit_compare x y \<le> 0 \<and> codeunit_compare y z \<le> 0"
  then show "codeunit_compare x z \<le> 0"
    by (elim conjE) (rule codeunit_compare_trans)
qed

lemma compare_src_published:
  assumes "getTime (published a) \<noteq> None" "getTime (published b) \<noteq> None"
  shows "(nan_as_zero (compare_src getTime lc ''published'' a b) \<le> 0)
           = cascade [published_at getTime] any_order a b"
  using assms
  by (auto simp: compare_src_def num_sub_def nan_as_zero_def published_at_def any_order_def)

text \<open>A sorted list ordered by a cascade, for a comparator that is that cascade.\<close>

lemma sorted_by_cascade:
  assumes "\<And>x y. x \<in> set xs \<Longrightarrow> y \<in> set xs \<Longrightarrow> (cmp x y \<le> 0) = cascade ks final x y"
    and "\<And>a b. final a b \<or> final b a"
    and "\<And>a b c. final a b \<Longrightarrow> final b c \<Longrightarrow> final a c"
  shows "sorted_wrt (cascade ks final) (js_sort cmp xs)"
proof (rule sorted_js_sort_rel)
  show "(cmp x y \<le> 0) = cascade ks final x y" if "x \<in> set xs" "y \<in> set xs" for x y
    using that by (rule assms(1))
  show "cascade ks final a b \<or> cascade ks final b a" for a b
    by (rule cascade_total) (rule assms(2))
  show "cascade ks final a c" if "cascade ks final a b" "cascade ks final b c" for a b c
    using that by (rule cascade_trans [rotated]) (rule assms(3))
qed

lemma sort_name_of: "toLowerCase (param_or (Some s) d) = toLowerCase s"
  by (simp add: param_or_def)

section \<open>The candidate loop of the direct design\<close>

declare candidate_loop.simps [simp del]

lemma process_repo_no_TypeError: "snd (process_repo net repo) \<noteq> Inl TypeError"
  by (simp add: process_repo_def Let_def split: response.split option.split)

lemma candidate_loop_no_TypeError:
  "total_count result \<le> int (length (items result))
   \<Longrightarrow> snd (candidate_loop net result i plugins log) \<noteq> Inl TypeError"
proof (induction net result i plugins log rule: candidate_loop.induct)
  case (1 net result i plugins log)
  show ?case
  proof (cases "int i < total_count result")
    case False
    then show ?thesis by (simp add: candidate_loop.simps [of net result i])
  next
    case True
    with 1(3) have inb: "i < length (items result)" by simp
    obtain l r where pr: "process_repo net (items result ! i) = (l, r)"
      by (cases "process_repo net (items result ! i)")
    show ?thesis
    proof (cases r)
      case (Inl e)
      with pr process_repo_no_TypeError [of net "items result ! i"] have "e \<noteq> TypeError"
        by auto
      with True inb pr Inl show ?thesis
        by (simp add: candidate_loop.simps [of net result i])
    next
      case (Inr p)
      show ?thesis
      proof (cases p)
        case None
        with True inb pr Inr 1(1) [OF True inb pr [symmetric]] 1(3)
        show ?thesis by (simp add: candidate_loop.simps [of net result i])
      next
        case (Some plugin)
        with True inb pr Inr 1(2) [OF True inb pr [symmetric]] 1(3)
        show ?thesis by (simp add: candidate_loop.simps [of net result i])
      qed
    qed
  qed
qed


lemma completes_cases:
  assumes "completes net repo"
  obtains l where "process_repo net repo = (l, Inr None)" "listed net repo = []"
  | l plugin where "process_repo net repo = (l, Inr (Some plugin))" "listed net repo = [plugin]"
proof (cases "process_repo net repo")
  case (Pair l r)
  with assms that show ?thesis
    by (cases r; cases "projr r") (auto simp: completes_def listed_def)
qed

lemma candidate_loop_log:
  "\<exists>l. fst (candidate_loop net result i plugins log) = log @ l"
proof (induction net result i plugins log rule: candidate_loop.induct)
  case (1 net result i plugins log)
  show ?case
  proof (cases "int i < total_count result \<and> i < length (items result)")
    case False
    then show ?thesis by (auto simp: candidate_loop.simps [of net result i])
  next
    case True
    obtain l r where pr: "process_repo net (items result ! i) = (l, r)"
      by (cases "process_repo net (items result ! i)")
    show ?thesis
    proof (cases r)
      case (Inl e)
      with True pr show ?thesis by (simp add: candidate_loop.simps [of net result i])
    next
      case (Inr p)
      show ?thesis
      proof (cases p)
        case None
        with True pr Inr 1(1) [OF _ _ pr [symmetric]]
        show ?thesis by (auto simp: candidate_loop.simps [of net result i])
      next
        case (Some plugin)
        with True pr Inr 1(2) [OF _ _ pr [symmetric]]
        show ?thesis by (auto simp: candidate_loop.simps [of net result i])
      qed
    qed
  qed
qed

lemma fetchPlugins_direct_loaded:
  assumes "\<not> cache_valid now st"
    and "get_search net = Response status (Some result)" and "is_ok status"
  shows "fst (fetchPlugins_direct net now st) =
           (case snd (candidate_loop net result 0 [] [Search_topic]) of
              Inl e \<Rightarrow> Inl e | Inr plugins \<Rightarrow> Inr (Some plugins))"
  using assms
  by (cases "candidate_loop net result 0 [] [Search_topic]")
     (auto simp: fetchPlugins_direct_def cache_valid_def Let_def split: sum.split)

lemma fetchPlugins_direct_first_request:
  assumes "\<not> cache_valid now st"
  shows "take 1 (snd (snd (fetchPlugins_direct net now st))) = [Search_topic]"
proof (cases "get_search net")
  case Rejected
  with assms show ?thesis by (simp add: fetchPlugins_direct_def cache_valid_def Let_def)
next
  case (Response status body)
  show ?thesis
  proof (cases "is_ok status \<and> body \<noteq> None")
    case False
    with assms Response show ?thesis
      by (auto simp: fetchPlugins_direct_def cache_valid_def Let_def)
  next
    case True
    then obtain result where b: "body = Some result" by auto
    obtain l where "fst (candidate_loop net result 0 [] [Search_topic]) = [Search_topic] @ l"
      using candidate_loop_log by blast
    with assms Response True b show ?thesis
      by (cases "candidate_loop net result 0 [] [Search_topic]")
         (auto simp: fetchPlugins_direct_def cache_valid_def Let_def split: sum.split)
  qed
qed

section \<open>The cache of the loaders\<close>

lemma unique_ids_snoc:
  "unique_ids (cache @ [plugin]) \<longleftrightarrow>
     unique_ids cache \<and> find (\<lambda>p. plugin_id p = plugin_id plugin) cache = None"
  by (auto simp: unique_ids_def find_None_iff image_iff)

text \<open>The merge of the direct design keeps the ids of the cache distinct.\<close>

lemma merge_cache_unique_ids:
  "unique_ids cache \<Longrightarrow> unique_ids (merge_cache cache plugins)"
  by (induction plugins arbitrary: cache) (simp_all add: unique_ids_snoc)

section \<open>Where a listed plugin comes from\<close>





section \<open>What a fetch leaves in the module state\<close>

lemma fetchPlugins_direct_lastFetch:
  "\<not> cache_valid now st \<Longrightarrow> lastFetch (fst (snd (fetchPlugins_direct net now st))) = now"
  by (cases "get_search net")
     (auto simp: fetchPlugins_direct_def cache_valid_def Let_def
        split: option.split prod.split sum.split)

lemma fetchPlugins_direct_CACHE:
  assumes "\<not> cache_valid now st"
    and "fst (fetchPlugins_direct net now st) = Inr (Some plugins)"
  shows "CACHE (fst (snd (fetchPlugins_direct net now st))) = merge_cache (CACHE st) plugins"
  using assms
  by (cases "get_search net")
     (auto simp: fetchPlugins_direct_def cache_valid_def Let_def
        split: option.splits prod.splits sum.splits if_splits)

lemma merge_cache_append:
  "distinct (map plugin_id plugins)
   \<Longrightarrow> plugin_id ` set cache \<inter> plugin_id ` set plugins = {}
   \<Longrightarrow> merge_cache cache plugins = cache @ plugins"
proof (induction plugins arbitrary: cache)
  case Nil
  then show ?case by simp
next
  case (Cons p ps)
  from Cons.prems(2) have "plugin_id p \<notin> plugin_id ` set cache"
    by auto
  then have "find (\<lambda>c. plugin_id c = plugin_id p) cache = None"
    by (auto simp: find_None_iff image_iff)
  moreover have "merge_cache (cache @ [p]) ps = (cache @ [p]) @ ps"
    using Cons.prems by (intro Cons.IH) auto
  ultimately show ?case by simp
qed

lemma merge_cache_empty: "unique_ids plugins \<Longrightarrow> merge_cache [] plugins = plugins"
  using merge_cache_append [of plugins "[]"] by (simp add: unique_ids_def)

section \<open>The loop as a walk over the candidates\<close>

lemma candidate_loop_collect:
  assumes "i \<le> length (items result)"
  shows "snd (candidate_loop net result i plugins log) =
           (case collect net (drop i (take (nat (total_count result)) (items result))) of
              Inl e \<Rightarrow> Inl e
            | Inr ps \<Rightarrow>
                if total_count result \<le> int (length (items result))
                then Inr (plugins @ ps) else Inl TypeError)"
  using assms
proof (induction net result i plugins log rule: candidate_loop.induct)
  case (1 net result i plugins log)
  show ?case
  proof (cases "int i < total_count result")
    case False
    with 1(3) show ?thesis by (simp add: candidate_loop.simps [of net result i])
  next
    case True
    show ?thesis
    proof (cases "i < length (items result)")
      case False
      with 1(3) have "drop i (take (nat (total_count result)) (items result)) = []" by simp
      with True False show ?thesis by (subst candidate_loop.simps) simp
    next
      case inb: True
      then have le: "Suc i \<le> length (items result)" by simp
      from True inb have dr: "drop i (take (nat (total_count result)) (items result)) =
          (items result ! i) # drop (Suc i) (take (nat (total_count result)) (items result))"
        by (simp add: Cons_nth_drop_Suc [symmetric])
      obtain l r where pr: "process_repo net (items result ! i) = (l, r)"
        by (cases "process_repo net (items result ! i)")
      show ?thesis
      proof (cases r)
        case (Inl e)
        with True inb pr dr show ?thesis
          by (simp add: candidate_loop.simps [of net result i])
      next
        case (Inr q)
        show ?thesis
        proof (cases q)
          case None
          with True inb pr Inr dr 1(1) [OF True inb pr [symmetric] Inr None le]
          show ?thesis by (simp add: candidate_loop.simps [of net result i])
        next
          case (Some plugin)
          with True inb pr Inr dr 1(2) [OF True inb pr [symmetric] Inr Some le]
          show ?thesis
            by (simp add: candidate_loop.simps [of net result i] split: sum.split)
        qed
      qed
    qed
  qed
qed

lemma fetchPlugins_direct_collect:
  assumes "\<not> cache_valid now st"
    and "get_search net = Response status (Some result)" and "is_ok status"
  shows "fst (fetchPlugins_direct net now st) =
           (case collect net (take (nat (total_count result)) (items result)) of
              Inl e \<Rightarrow> Inl e
            | Inr plugins \<Rightarrow>
                if total_count result \<le> int (length (items result))
                then Inr (Some plugins) else Inl TypeError)"
  using fetchPlugins_direct_loaded [OF assms]
    candidate_loop_collect [of 0 result net "[]" "[Search_topic]"]
  by (simp split: sum.split)

lemma completes_answered: "completes net repo = answered net repo"
  by (simp add: completes_def answered_def process_repo_def Let_def
      split: response.split option.split)

lemma collect_answered:
  "(\<forall>repo\<in>set repos. answered net repo)
   \<Longrightarrow> collect net repos = Inr (concat (map (listed net) repos))"
proof (induction repos)
  case Nil
  then show ?case by simp
next
  case (Cons repo repos)
  then have rest: "collect net repos = Inr (concat (map (listed net) repos))" by simp
  from Cons have "completes net repo" by (simp add: completes_answered)
  then show ?case
    by (cases rule: completes_cases) (simp_all add: rest)
qed

lemma collect_not_answered:
  "repo \<in> set repos \<Longrightarrow> \<not> answered net repo \<Longrightarrow> \<exists>e. collect net repos = Inl e"
proof (induction repos)
  case Nil
  then show ?case by simp
next
  case (Cons r repos)
  show ?case
  proof (cases "snd (process_repo net r)")
    case (Inl e)
    then show ?thesis by simp
  next
    case (Inr q)
    then have "completes net r" by (simp add: completes_def)
    with Cons.prems have "repo \<in> set repos" by (auto simp: completes_answered)
    with Cons obtain e where "collect net repos = Inl e" by blast
    with Inr show ?thesis by (cases q) simp_all
  qed
qed

lemma collect_Inr_iff:
  "(\<exists>plugins. collect net repos = Inr plugins) = (\<forall>repo\<in>set repos. answered net repo)"
  using collect_answered [of repos net] collect_not_answered [of _ repos net] by fastforce

lemma collect_skip:
  "snd (process_repo net repo) = Inr None
   \<Longrightarrow> collect net (xs @ repo # ys) = collect net (xs @ ys)"
  by (induction xs) (simp_all split: sum.split option.split)

lemma collect_no_TypeError: "collect net repos \<noteq> Inl TypeError"
proof (induction repos)
  case Nil
  then show ?case by simp
next
  case (Cons repo repos)
  with process_repo_no_TypeError [of net repo] show ?case
    by (auto split: sum.splits option.splits)
qed

section \<open>The lazy effects of the detail page\<close>

lemma fetch_readme_first: "\<exists>l. fst (fetch_readme decode api ow nm) = Repo_readme ow nm # l"
  by (simp add: fetch_readme_def Let_def split: response.split option.split)

lemma fetch_releases_first:
  "fst (fetch_releases api ow nm) = [Repo_releases_page ow nm 25]"
  by (simp add: fetch_releases_def Let_def split: response.split option.split)

lemma fetch_commits_first:
  "fst (fetch_commits api ow nm branch) = [Repo_commits ow nm branch]"
  by (simp add: fetch_commits_def Let_def split: response.split option.split)

lemma fetch_gallery_first: "fst (fetch_gallery api ow nm) = [Repo_gallery ow nm]"
  by (simp add: fetch_gallery_def Let_def split: response.split option.split)

text \<open>With a tab current, only the effect of that tab does anything.\<close>

lemma run_lazy_effects_readme:
  assumes "tab st = Readme_tab"
  shows "run_lazy_effects decode api alive st = readme_effect decode api alive st"
proof -
  obtain l s where r: "readme_effect decode api alive st = (l, s)"
    by (cases "readme_effect decode api alive st")
  with assms have "tab s = Readme_tab"
    by (auto simp: readme_effect_def split: if_splits prod.splits)
  with r show ?thesis
    by (simp add: run_lazy_effects_def releases_effect_def commits_effect_def
        gallery_effect_def)
qed

lemma run_lazy_effects_versions:
  assumes "tab st = Versions_tab"
  shows "run_lazy_effects decode api alive st = releases_effect api alive st"
proof -
  obtain l s where r: "releases_effect api alive st = (l, s)"
    by (cases "releases_effect api alive st")
  with assms have "tab s = Versions_tab"
    by (auto simp: releases_effect_def split: if_splits prod.splits)
  with r assms show ?thesis
    by (simp add: run_lazy_effects_def readme_effect_def commits_effect_def
        gallery_effect_def)
qed

lemma run_lazy_effects_changelog:
  assumes "tab st = Changelog_tab"
  shows "run_lazy_effects decode api alive st = commits_effect api alive st"
proof -
  obtain l s where r: "commits_effect api alive st = (l, s)"
    by (cases "commits_effect api alive st")
  with assms have "tab s = Changelog_tab"
    by (auto simp: commits_effect_def split: if_splits prod.splits)
  with r assms show ?thesis
    by (simp add: run_lazy_effects_def readme_effect_def releases_effect_def
        gallery_effect_def)
qed

lemma run_lazy_effects_gallery:
  assumes "tab st = Gallery_tab"
  shows "run_lazy_effects decode api alive st = gallery_effect api alive st"
  using assms
  by (cases "gallery_effect api alive st")
     (simp add: run_lazy_effects_def readme_effect_def releases_effect_def commits_effect_def)

lemmas run_lazy_effects_cases =
  run_lazy_effects_readme run_lazy_effects_versions run_lazy_effects_changelog
  run_lazy_effects_gallery

lemma run_lazy_effects_loaded:
  "resource_loaded (tab st) st \<Longrightarrow> run_lazy_effects decode api alive st = ([], st)"
  by (cases "tab st")
     (simp_all add: run_lazy_effects_cases resource_loaded_def readme_effect_def
        releases_effect_def commits_effect_def gallery_effect_def)

lemma run_lazy_effects_first_request:
  assumes "\<not> resource_loaded (tab st) st"
  shows "take 1 (fst (run_lazy_effects decode api alive st)) = [resource_request (tab st) st]"
proof (cases "tab st")
  case Readme_tab
  with assms fetch_readme_first [of decode api "route_owner st" "route_name st"]
  show ?thesis
    by (auto simp: run_lazy_effects_readme resource_loaded_def resource_request_def
        readme_effect_def split: prod.split)
next
  case Versions_tab
  with assms fetch_releases_first [of api "route_owner st" "route_name st"]
  show ?thesis
    by (auto simp: run_lazy_effects_versions resource_loaded_def resource_request_def
        releases_effect_def split: prod.split)
next
  case Changelog_tab
  with assms fetch_commits_first [of api "route_owner st" "route_name st" "branch_of st"]
  show ?thesis
    by (auto simp: run_lazy_effects_changelog resource_loaded_def resource_request_def
        commits_effect_def split: prod.split)
next
  case Gallery_tab
  with assms fetch_gallery_first [of api "route_owner st" "route_name st"]
  show ?thesis
    by (auto simp: run_lazy_effects_gallery resource_loaded_def resource_request_def
        gallery_effect_def split: prod.split)
qed

text \<open>What an attempt stores is what the network delivers, while the effect is alive.\<close>

lemma fetch_readme_delivers:
  "(\<exists>v. snd (fetch_readme decode api (route_owner st) (route_name st)) = Stored (Some v))
     = delivers decode api Readme_tab st"
  by (auto simp: fetch_readme_def delivers_def Let_def
      split: response.split option.split)

lemma fetch_readme_not_null:
  "snd (fetch_readme decode api (route_owner st) (route_name st)) \<noteq> Stored None"
  by (auto simp: fetch_readme_def Let_def split: response.split option.split)

lemma fetch_releases_delivers:
  "(\<exists>v. snd (fetch_releases api (route_owner st) (route_name st)) = Stored (Some v))
     = delivers decode api Versions_tab st"
  by (auto simp: fetch_releases_def delivers_def Let_def
      split: response.split option.split)

lemma fetch_releases_not_null:
  "snd (fetch_releases api (route_owner st) (route_name st)) \<noteq> Stored None"
  by (auto simp: fetch_releases_def Let_def split: response.split option.split)

lemma fetch_commits_delivers:
  "(\<exists>v. snd (fetch_commits api (route_owner st) (route_name st) (branch_of st)) = Stored (Some v))
     = delivers decode api Changelog_tab st"
  by (auto simp: fetch_commits_def delivers_def Let_def
      split: response.split option.split)

lemma fetch_commits_not_null:
  "snd (fetch_commits api (route_owner st) (route_name st) (branch_of st)) \<noteq> Stored None"
  by (auto simp: fetch_commits_def Let_def split: response.split option.split)

lemma fetch_gallery_delivers:
  "(\<exists>v. snd (fetch_gallery api (route_owner st) (route_name st)) = Stored (Some v))
     = delivers decode api Gallery_tab st"
  by (auto simp: fetch_gallery_def delivers_def Let_def
      split: response.split option.split)

lemma fetch_gallery_not_null:
  "snd (fetch_gallery api (route_owner st) (route_name st)) \<noteq> Stored None"
  by (auto simp: fetch_gallery_def Let_def split: response.split option.split)

lemma settle_loaded:
  assumes "slot_value s = None" and "r \<noteq> Stored None"
  shows "(slot_value (settle alive (begin_fetch s) r) \<noteq> None)
           = (alive \<and> (\<exists>v. r = Stored (Some v)))"
proof (cases r)
  case (Stored v)
  with assms show ?thesis by (cases v) (simp_all add: settle_def begin_fetch_def)
next
  case (Thrown f)
  with assms show ?thesis by (simp add: settle_def begin_fetch_def)
qed

lemma run_lazy_effects_delivers:
  assumes "\<not> resource_loaded (tab st) st"
  shows "resource_loaded (tab st) (snd (run_lazy_effects decode api alive st))
           = (alive \<and> delivers decode api (tab st) st)"
proof (cases "tab st")
  case Readme_tab
  with assms have n: "slot_value (readme st) = None" by (simp add: resource_loaded_def)
  obtain l r where f: "fetch_readme decode api (route_owner st) (route_name st) = (l, r)"
    by (cases "fetch_readme decode api (route_owner st) (route_name st)")
  with fetch_readme_delivers [of decode api st] fetch_readme_not_null [of decode api st]
  have "(\<exists>v. r = Stored (Some v)) = delivers decode api Readme_tab st" "r \<noteq> Stored None"
    by simp_all
  with settle_loaded [OF n, of r alive] Readme_tab n f show ?thesis
    by (simp add: run_lazy_effects_readme resource_loaded_def readme_effect_def)
next
  case Versions_tab
  with assms have n: "slot_value (page_releases st) = None" by (simp add: resource_loaded_def)
  obtain l r where f: "fetch_releases api (route_owner st) (route_name st) = (l, r)"
    by (cases "fetch_releases api (route_owner st) (route_name st)")
  with fetch_releases_delivers [of api st decode] fetch_releases_not_null [of api st]
  have "(\<exists>v. r = Stored (Some v)) = delivers decode api Versions_tab st" "r \<noteq> Stored None"
    by simp_all
  with settle_loaded [OF n, of r alive] Versions_tab n f show ?thesis
    by (simp add: run_lazy_effects_versions resource_loaded_def releases_effect_def)
next
  case Changelog_tab
  with assms have n: "slot_value (commits st) = None" by (simp add: resource_loaded_def)
  obtain l r where
    f: "fetch_commits api (route_owner st) (route_name st) (branch_of st) = (l, r)"
    by (cases "fetch_commits api (route_owner st) (route_name st) (branch_of st)")
  with fetch_commits_delivers [of api st decode] fetch_commits_not_null [of api st]
  have "(\<exists>v. r = Stored (Some v)) = delivers decode api Changelog_tab st" "r \<noteq> Stored None"
    by simp_all
  with settle_loaded [OF n, of r alive] Changelog_tab n f show ?thesis
    by (simp add: run_lazy_effects_changelog resource_loaded_def commits_effect_def)
next
  case Gallery_tab
  with assms have n: "slot_value (galleryContent st) = None"
    by (simp add: resource_loaded_def)
  obtain l r where f: "fetch_gallery api (route_owner st) (route_name st) = (l, r)"
    by (cases "fetch_gallery api (route_owner st) (route_name st)")
  with fetch_gallery_delivers [of api st decode] fetch_gallery_not_null [of api st]
  have "(\<exists>v. r = Stored (Some v)) = delivers decode api Gallery_tab st" "r \<noteq> Stored None"
    by simp_all
  with settle_loaded [OF n, of r alive] Gallery_tab n f show ?thesis
    by (simp add: run_lazy_effects_gallery resource_loaded_def gallery_effect_def)
qed

text \<open>The effects leave the tab, the route and the resources of the other tabs alone.\<close>

lemma run_lazy_effects_tab: "tab (snd (run_lazy_effects decode api alive st)) = tab st"
  by (cases "tab st")
     (auto simp: run_lazy_effects_cases readme_effect_def releases_effect_def
        commits_effect_def gallery_effect_def split: prod.splits)

lemma run_lazy_effects_request:
  "resource_request t (snd (run_lazy_effects decode api alive st)) = resource_request t st"
  by (cases "tab st"; cases t)
     (auto simp: run_lazy_effects_cases resource_request_def branch_of_def
        readme_effect_def releases_effect_def commits_effect_def gallery_effect_def
        split: prod.splits)

lemma run_lazy_effects_other:
  "t \<noteq> tab st
   \<Longrightarrow> resource_loaded t (snd (run_lazy_effects decode api alive st)) = resource_loaded t st"
  by (cases "tab st"; cases t)
     (auto simp: run_lazy_effects_cases resource_loaded_def
        readme_effect_def releases_effect_def commits_effect_def gallery_effect_def
        split: prod.splits)

lemma delivers_tab [simp]: "delivers decode api t (st\<lparr>tab := t'\<rparr>) = delivers decode api t st"
  by (cases t) (simp_all add: delivers_def branch_of_def)

lemma resource_loaded_tab [simp]:
  "resource_loaded t (st\<lparr>tab := t'\<rparr>) = resource_loaded t st"
  by (cases t) (simp_all add: resource_loaded_def)

lemma resource_request_tab [simp]:
  "resource_request t (st\<lparr>tab := t'\<rparr>) = resource_request t st"
  by (cases t) (simp_all add: resource_request_def branch_of_def)

text \<open>Choosing a tab that is not the current one.\<close>

lemma activate_tab_loaded:
  "t \<noteq> tab st \<Longrightarrow> resource_loaded t st
   \<Longrightarrow> activate_tab decode api alive t st = ([], st\<lparr>tab := t\<rparr>)"
  using run_lazy_effects_loaded [of "st\<lparr>tab := t\<rparr>" decode api alive]
  by (simp add: activate_tab_def)

lemma activate_tab_first_request:
  "t \<noteq> tab st \<Longrightarrow> \<not> resource_loaded t st
   \<Longrightarrow> take 1 (fst (activate_tab decode api alive t st)) = [resource_request t st]"
  using run_lazy_effects_first_request [of "st\<lparr>tab := t\<rparr>" decode api alive]
  by (simp add: activate_tab_def)

lemma activate_tab_delivers:
  "t \<noteq> tab st \<Longrightarrow> \<not> resource_loaded t st
   \<Longrightarrow> resource_loaded t (snd (activate_tab decode api alive t st))
         = (alive \<and> delivers decode api t st)"
  using run_lazy_effects_delivers [of "st\<lparr>tab := t\<rparr>" decode api alive]
  by (simp add: activate_tab_def)

lemma activate_tab_tab: "tab (snd (activate_tab decode api alive t st)) = t"
  by (simp add: activate_tab_def run_lazy_effects_tab)

lemma activate_tab_request:
  "resource_request t' (snd (activate_tab decode api alive t st)) = resource_request t' st"
  by (simp add: activate_tab_def run_lazy_effects_request)

lemma activate_tab_other:
  "t' \<noteq> t
   \<Longrightarrow> resource_loaded t' (snd (activate_tab decode api alive t st)) = resource_loaded t' st"
  using run_lazy_effects_other [of t' "st\<lparr>tab := t\<rparr>" decode api alive]
  by (simp add: activate_tab_def)

section \<open>Claims\<close>

text \<open>
  Claim C1. For every plugin collection and every query, the filtered list of the list view
  model is exactly the sublist of the plugins for which every term of the query (the query
  lower-cased, split on white space, a leading hash sign stripped from each term) occurs in
  the lower-cased join of the plugin's name, owner identifier, description and keywords.
  This holds for both versions of the page. A term holds no white space and the fields
  are joined with a space, so a term occurs in the join exactly when it occurs in one of
  the fields: the terms are combined by "and", the fields by "or".
\<close>

theorem filtered_is_spec_filter:
  "filtered_client (Some ps) qp =
     filter (\<lambda>p. spec_match (spec_terms (param_or qp ''''))
                   (name p # owner p # description p # plugin_keywords p)) ps
   \<and> filtered_src (Some ps') qp =
     filter (\<lambda>p. spec_match (spec_terms (param_or qp ''''))
                   (name p # username (owner p) # description p # plugin_keywords p)) ps'
   \<and> spec_match (spec_terms q) (n # ow # d # ks)
       = spec_match_fields (spec_terms q) (n # ow # d # ks)"
  by (simp only: filtered_client_spec filtered_src_spec spec_match_by_fields)

theorem filtered_is_spec_filter_witness:
  "filter (\<lambda>p. spec_match (spec_terms ''  #Shop ALI '')
                 (name p # owner p # description p # plugin_keywords p))
     [plugin_A, plugin_B] = [plugin_A]
   \<and> filter (\<lambda>p. spec_match (spec_terms ''carol  sec'')
                 (name p # username (owner p) # description p # plugin_keywords p))
     [plugin_X, plugin_Y] = [plugin_Y]"
proof -
  note client = filtered_is_spec_filter [of "[plugin_A, plugin_B]" "Some ''  #Shop ALI ''"
      "[]" "[]" "[]" "[]" "[]" "[]", unfolded param_or_def option.case, THEN conjunct1]
  note src = filtered_is_spec_filter [of "[]" "Some ''carol  sec''"
      "[plugin_X, plugin_Y]" "[]" "[]" "[]" "[]" "[]", unfolded param_or_def option.case,
      THEN conjunct2, THEN conjunct1]
  have a: "filtered_client (Some [plugin_A, plugin_B]) (Some ''  #Shop ALI '') = [plugin_A]"
    by code_simp
  have b: "filtered_src (Some [plugin_X, plugin_Y]) (Some ''carol  sec'') = [plugin_Y]"
    by code_simp
  show ?thesis
    by (rule conjI) (rule trans [OF sym [OF client] a], rule trans [OF sym [OF src] b])
qed

text \<open>
  Claim C2, as the code has it. For a \<^verbatim>\<open>localeCompare\<close> that is an order, the early page
  shows the plugins by stars, then downloads, then name, and under the key
  \<^verbatim>\<open>"downloads"\<close> by downloads, then stars, then name; the numbers descending, the name
  ascending. The later page, for plugins whose update dates can be read, shows them under
  \<^verbatim>\<open>"downloads"\<close> and \<^verbatim>\<open>"stars"\<close> by that count, then by update date, most recent first,
  then by stars, then by name, and under \<^verbatim>\<open>"updated"\<close> or an unknown key by update date,
  then stars, then name; under \<^verbatim>\<open>"published"\<close>, for plugins whose publication dates can
  be read, by publication date, most recent first. Every sorted list holds the plugins it
  was given. For the plugins A and B of the specification, the key \<^verbatim>\<open>"stars"\<close> gives
  A, B and the key \<^verbatim>\<open>"downloads"\<close> gives B, A.
\<close>

theorem display_order_follows_cascade:
  assumes "consistent lc"
  shows "(toLowerCase (param_or sp ''stars'') \<noteq> ''downloads''
            \<longrightarrow> sorted_wrt (cascade [stars_of, downloads_of] (by_name lc))
                  (sorted_client lc ps sp))
         \<and> (toLowerCase (param_or sp ''stars'') = ''downloads''
            \<longrightarrow> sorted_wrt (cascade [downloads_of, stars_of] (by_name lc))
                  (sorted_client lc ps sp))
         \<and> mset (sorted_client lc ps sp) = mset ps
         \<and> ((\<forall>p\<in>set qs. getTime (updated p) \<noteq> None)
              \<and> toLowerCase (param_or sq ''stars'') = ''downloads''
            \<longrightarrow> sorted_wrt (cascade [downloads_of, updated_at getTime, stars_of] (by_name lc))
                  (sorted_src getTime lc qs sq))
         \<and> ((\<forall>p\<in>set qs. getTime (updated p) \<noteq> None)
              \<and> toLowerCase (param_or sq ''stars'') = ''stars''
            \<longrightarrow> sorted_wrt (cascade [stars_of, updated_at getTime, stars_of] (by_name lc))
                  (sorted_src getTime lc qs sq))
         \<and> ((\<forall>p\<in>set qs. getTime (updated p) \<noteq> None)
              \<and> toLowerCase (param_or sq ''stars'') \<noteq> ''downloads''
              \<and> toLowerCase (param_or sq ''stars'') \<noteq> ''stars''
              \<and> toLowerCase (param_or sq ''stars'') \<noteq> ''published''
            \<longrightarrow> sorted_wrt (cascade [updated_at getTime, stars_of] (by_name lc))
                  (sorted_src getTime lc qs sq))
         \<and> ((\<forall>p\<in>set qs. getTime (published p) \<noteq> None)
              \<and> toLowerCase (param_or sq ''stars'') = ''published''
            \<longrightarrow> sorted_wrt (cascade [published_at getTime] any_order)
                  (sorted_src getTime lc qs sq))
         \<and> mset (sorted_src getTime lc qs sq) = mset qs
         \<and> sorted_client lc [plugin_A, plugin_B] (Some ''stars'') = [plugin_A, plugin_B]
         \<and> sorted_client lc [plugin_A, plugin_B] (Some ''downloads'') = [plugin_B, plugin_A]"
proof (intro conjI impI)
  note total = by_name_total [OF assms]
  note trans = by_name_trans [OF assms]
  let ?key = "toLowerCase (param_or sq ''stars'')"
  {
    assume "toLowerCase (param_or sp ''stars'') \<noteq> ''downloads''"
    then have "sorted_client lc ps sp = js_sort (compare_stars lc) ps"
      by (simp add: sorted_client_def Let_def)
    moreover have "sorted_wrt (cascade [stars_of, downloads_of] (by_name lc))
                     (js_sort (compare_stars lc) ps)"
      by (rule sorted_by_cascade) (rule compare_stars_cascade, rule total, rule trans)
    ultimately show "sorted_wrt (cascade [stars_of, downloads_of] (by_name lc))
                       (sorted_client lc ps sp)"
      by simp
  }
  {
    assume "toLowerCase (param_or sp ''stars'') = ''downloads''"
    then have "sorted_client lc ps sp = js_sort (compare_downloads lc) ps"
      by (simp add: sorted_client_def Let_def)
    moreover have "sorted_wrt (cascade [downloads_of, stars_of] (by_name lc))
                     (js_sort (compare_downloads lc) ps)"
      by (rule sorted_by_cascade) (rule compare_downloads_cascade, rule total, rule trans)
    ultimately show "sorted_wrt (cascade [downloads_of, stars_of] (by_name lc))
                       (sorted_client lc ps sp)"
      by simp
  }
  show "mset (sorted_client lc ps sp) = mset ps"
    by (simp add: sorted_client_def Let_def mset_js_sort)
  have src: "sorted_src getTime lc qs sq =
      js_sort (\<lambda>a b. nan_as_zero (compare_src getTime lc ?key a b)) qs"
    by (simp add: sorted_src_def Let_def)
  {
    assume a: "(\<forall>p\<in>set qs. getTime (updated p) \<noteq> None) \<and> ?key = ''downloads''"
    have "sorted_wrt (cascade [downloads_of, updated_at getTime, stars_of] (by_name lc))
            (js_sort (\<lambda>a b. nan_as_zero (compare_src getTime lc ''downloads'' a b)) qs)"
      using a by (intro sorted_by_cascade compare_src_cascade(1) total) (auto intro: trans)
    with a src show "sorted_wrt (cascade [downloads_of, updated_at getTime, stars_of]
                       (by_name lc)) (sorted_src getTime lc qs sq)"
      by simp
  }
  {
    assume a: "(\<forall>p\<in>set qs. getTime (updated p) \<noteq> None) \<and> ?key = ''stars''"
    have "sorted_wrt (cascade [stars_of, updated_at getTime, stars_of] (by_name lc))
            (js_sort (\<lambda>a b. nan_as_zero (compare_src getTime lc ''stars'' a b)) qs)"
      using a by (intro sorted_by_cascade compare_src_cascade(2) total) (auto intro: trans)
    with a src show "sorted_wrt (cascade [stars_of, updated_at getTime, stars_of]
                       (by_name lc)) (sorted_src getTime lc qs sq)"
      by simp
  }
  {
    assume a: "(\<forall>p\<in>set qs. getTime (updated p) \<noteq> None)
              \<and> ?key \<noteq> ''downloads'' \<and> ?key \<noteq> ''stars'' \<and> ?key \<noteq> ''published''"
    have "sorted_wrt (cascade [updated_at getTime, stars_of] (by_name lc))
            (js_sort (\<lambda>a b. nan_as_zero (compare_src getTime lc ?key a b)) qs)"
      using a by (intro sorted_by_cascade compare_src_cascade(3) total) (auto intro: trans)
    with src show "sorted_wrt (cascade [updated_at getTime, stars_of] (by_name lc))
                     (sorted_src getTime lc qs sq)"
      by simp
  }
  {
    assume a: "(\<forall>p\<in>set qs. getTime (published p) \<noteq> None) \<and> ?key = ''published''"
    have "sorted_wrt (cascade [published_at getTime] any_order)
            (js_sort (\<lambda>a b. nan_as_zero (compare_src getTime lc ''published'' a b)) qs)"
      using a by (intro sorted_by_cascade compare_src_published) (auto simp: any_order_def)
    with a src show "sorted_wrt (cascade [published_at getTime] any_order)
                       (sorted_src getTime lc qs sq)"
      by simp
  }
  show "mset (sorted_src getTime lc qs sq) = mset qs"
    by (simp add: src mset_js_sort)
  show "sorted_client lc [plugin_A, plugin_B] (Some ''stars'') = [plugin_A, plugin_B]"
    by (simp add: sorted_client_def js_sort_def compare_stars_def
        plugin_A_def plugin_B_def or_zero_def param_or_def toLowerCase_def lower_char_def)
  show "sorted_client lc [plugin_A, plugin_B] (Some ''downloads'') = [plugin_B, plugin_A]"
    by (simp add: sorted_client_def js_sort_def compare_downloads_def
        plugin_A_def plugin_B_def or_zero_def param_or_def toLowerCase_def lower_char_def)
qed

theorem display_order_follows_cascade_witness:
  "sorted_wrt (cascade [stars_of, downloads_of] (by_name codeunit_compare))
     (sorted_client codeunit_compare [plugin_B, plugin_A] (Some ''stars''))
   \<and> sorted_wrt (cascade [downloads_of, stars_of] (by_name codeunit_compare))
     (sorted_client codeunit_compare [plugin_A, plugin_B] (Some ''Downloads''))
   \<and> sorted_wrt (cascade [downloads_of, updated_at sample_getTime, stars_of]
                   (by_name codeunit_compare))
     (sorted_src sample_getTime codeunit_compare [plugin_X, plugin_Y] (Some ''downloads''))
   \<and> sorted_wrt (cascade [stars_of, updated_at sample_getTime, stars_of]
                   (by_name codeunit_compare))
     (sorted_src sample_getTime codeunit_compare [plugin_X, plugin_Y] (Some ''stars''))
   \<and> sorted_wrt (cascade [updated_at sample_getTime, stars_of] (by_name codeunit_compare))
     (sorted_src sample_getTime codeunit_compare [plugin_X, plugin_Y] (Some ''updated''))
   \<and> sorted_wrt (cascade [published_at sample_getTime] any_order)
     (sorted_src sample_getTime codeunit_compare [plugin_X, plugin_Y] (Some ''published''))"
proof -
  have k: "toLowerCase (param_or (Some ''stars'') ''stars'') \<noteq> ''downloads''"
    "toLowerCase (param_or (Some ''Downloads'') ''stars'') = ''downloads''"
    "toLowerCase (param_or (Some ''downloads'') ''stars'') = ''downloads''"
    "toLowerCase (param_or (Some ''stars'') ''stars'') = ''stars''"
    "toLowerCase (param_or (Some ''updated'') ''stars'') \<noteq> ''downloads''
     \<and> toLowerCase (param_or (Some ''updated'') ''stars'') \<noteq> ''stars''
     \<and> toLowerCase (param_or (Some ''updated'') ''stars'') \<noteq> ''published''"
    "toLowerCase (param_or (Some ''published'') ''stars'') = ''published''"
    by code_simp+
  have d: "\<forall>p\<in>set [plugin_X, plugin_Y]. sample_getTime (updated p) \<noteq> None"
    "\<forall>p\<in>set [plugin_X, plugin_Y]. sample_getTime (published p) \<noteq> None"
    by (simp_all add: plugin_X_def plugin_Y_def sample_getTime_def)
  note c = display_order_follows_cascade [OF consistent_codeunit_compare]
  from k(1) c [where sp = "Some ''stars''" and ps = "[plugin_B, plugin_A]"]
  have 1: "sorted_wrt (cascade [stars_of, downloads_of] (by_name codeunit_compare))
     (sorted_client codeunit_compare [plugin_B, plugin_A] (Some ''stars''))"
    by blast
  from k(2) c [where sp = "Some ''Downloads''" and ps = "[plugin_A, plugin_B]"]
  have 2: "sorted_wrt (cascade [downloads_of, stars_of] (by_name codeunit_compare))
     (sorted_client codeunit_compare [plugin_A, plugin_B] (Some ''Downloads''))"
    by blast
  from k(3) d(1) c [where sq = "Some ''downloads''" and qs = "[plugin_X, plugin_Y]"
      and getTime = sample_getTime]
  have 3: "sorted_wrt (cascade [downloads_of, updated_at sample_getTime, stars_of]
                   (by_name codeunit_compare))
     (sorted_src sample_getTime codeunit_compare [plugin_X, plugin_Y] (Some ''downloads''))"
    by blast
  from k(4) d(1) c [where sq = "Some ''stars''" and qs = "[plugin_X, plugin_Y]"
      and getTime = sample_getTime]
  have 4: "sorted_wrt (cascade [stars_of, updated_at sample_getTime, stars_of]
                   (by_name codeunit_compare))
     (sorted_src sample_getTime codeunit_compare [plugin_X, plugin_Y] (Some ''stars''))"
    by blast
  from k(5) d(1) c [where sq = "Some ''updated''" and qs = "[plugin_X, plugin_Y]"
      and getTime = sample_getTime]
  have 5: "sorted_wrt (cascade [updated_at sample_getTime, stars_of] (by_name codeunit_compare))
     (sorted_src sample_getTime codeunit_compare [plugin_X, plugin_Y] (Some ''updated''))"
    by blast
  from k(6) d(2) c [where sq = "Some ''published''" and qs = "[plugin_X, plugin_Y]"
      and getTime = sample_getTime]
  have 6: "sorted_wrt (cascade [published_at sample_getTime] any_order)
     (sorted_src sample_getTime codeunit_compare [plugin_X, plugin_Y] (Some ''published''))"
    by blast
  from 1 2 3 4 5 6 show ?thesis by (simp only: simp_thms)
qed

text \<open>
  The claim as it is written fails on the later page in two places. Under the key
  \<^verbatim>\<open>"stars"\<close>, X and Y have the same stars and X has more downloads, so the claim puts X
  first; the page puts Y first, which was updated later. Under the key \<^verbatim>\<open>"published"\<close>,
  X and Y were published at the same time and Y was updated later, so the claim puts Y
  first; the page leaves them as they came, because that case of the \<^verbatim>\<open>switch\<close> returns
  the difference of the publication dates and does not reach the fallback.
\<close>

theorem later_page_ties_counterexample:
  "stars_of plugin_X = stars_of plugin_Y
   \<and> downloads_of plugin_Y < downloads_of plugin_X
   \<and> sorted_src sample_getTime codeunit_compare [plugin_X, plugin_Y] (Some ''stars'')
       = [plugin_Y, plugin_X]
   \<and> published_at sample_getTime plugin_X = published_at sample_getTime plugin_Y
   \<and> updated_at sample_getTime plugin_X < updated_at sample_getTime plugin_Y
   \<and> sorted_src sample_getTime codeunit_compare [plugin_X, plugin_Y] (Some ''published'')
       = [plugin_X, plugin_Y]"
proof (intro conjI)
  show "stars_of plugin_X = stars_of plugin_Y"
    by code_simp
  show "downloads_of plugin_Y < downloads_of plugin_X"
    by code_simp
  show "sorted_src sample_getTime codeunit_compare [plugin_X, plugin_Y] (Some ''stars'')
       = [plugin_Y, plugin_X]"
    by code_simp
  show "published_at sample_getTime plugin_X = published_at sample_getTime plugin_Y"
    by code_simp
  show "updated_at sample_getTime plugin_X < updated_at sample_getTime plugin_Y"
    by code_simp
  show "sorted_src sample_getTime codeunit_compare [plugin_X, plugin_Y] (Some ''published'')
       = [plugin_X, plugin_Y]"
    by code_simp
qed

text \<open>
  Claim C3, as the code has it. A call of the list loader that goes to the network at time
  \<open>t0\<close> is followed by a call at time \<open>t1\<close>. Backend design: when the first call was
  answered with the collection \<open>plugins\<close>, the second call, if it comes less than five
  minutes after the first and \<open>plugins\<close> is not empty, issues no request, returns
  \<open>plugins\<close> unchanged and leaves the module state as it was; otherwise, the window
  elapsed or the collection empty, it requests the collection again. Direct design: the
  first call records its time whatever its outcome, and when it returns a list the cache
  is the old cache merged with that list (the list itself, when the cache was empty and
  the ids of the list are distinct); the second call, if it comes less than five minutes
  after the first and the cache is not empty, issues no request and returns the cache
  unchanged; otherwise its first request is the topic search.
\<close>

theorem cache_answers_within_window:
  fixes st :: "(string, unit) loader" and api :: "(string, unit) backend" and net :: github
    and t0 :: int
  defines "st_b \<equiv> fst (snd (fetchPlugins_backend api t0 st))"
    and "st_d \<equiv> fst (snd (fetchPlugins_direct net t0 st))"
  assumes "\<not> cache_valid t0 st"
  shows "(get_plugins api = Response status (Some plugins) \<and> is_ok status
          \<longrightarrow> fst (fetchPlugins_backend api t0 st) = Some plugins
              \<and> (t1 - t0 < CACHE_DURATION \<and> plugins \<noteq> []
                  \<longrightarrow> fetchPlugins_backend api' t1 st_b
                        = (Some plugins, st_b, []))
              \<and> (\<not> (t1 - t0 < CACHE_DURATION \<and> plugins \<noteq> [])
                  \<longrightarrow> snd (snd (fetchPlugins_backend api' t1 st_b))
                        = [Api_plugins]))
         \<and> (t1 - t0 < CACHE_DURATION \<and> CACHE st_d \<noteq> []
          \<longrightarrow> fetchPlugins_direct net' t1 st_d
                = (Inr (Some (CACHE st_d)), st_d, []))
         \<and> (\<not> (t1 - t0 < CACHE_DURATION \<and> CACHE st_d \<noteq> [])
          \<longrightarrow> take 1 (snd (snd (fetchPlugins_direct net' t1 st_d)))
                = [Search_topic])
         \<and> (fst (fetchPlugins_direct net t0 st) = Inr (Some listed_plugins)
          \<longrightarrow> CACHE st_d = merge_cache (CACHE st) listed_plugins
              \<and> (CACHE st = [] \<and> unique_ids listed_plugins
                  \<longrightarrow> CACHE st_d = listed_plugins))"
proof (intro conjI impI)
  note nv = \<open>\<not> cache_valid t0 st\<close>
  {
    assume a: "get_plugins api = Response status (Some plugins) \<and> is_ok status"
    with nv have st1: "fetchPlugins_backend api t0 st
        = (Some plugins, st\<lparr>lastFetch := t0, CACHE := plugins\<rparr>, [Api_plugins])"
      by (simp add: fetchPlugins_backend_def cache_valid_def)
    then show "fst (fetchPlugins_backend api t0 st) = Some plugins"
      by simp
    {
      assume "t1 - t0 < CACHE_DURATION \<and> plugins \<noteq> []"
      with st1 show "fetchPlugins_backend api' t1 st_b
                        = (Some plugins, st_b, [])"
        by (simp add: st_b_def fetchPlugins_backend_def)
    }
    {
      assume "\<not> (t1 - t0 < CACHE_DURATION \<and> plugins \<noteq> [])"
      with st1 show "snd (snd (fetchPlugins_backend api' t1 st_b))
                        = [Api_plugins]"
        by (auto simp: st_b_def fetchPlugins_backend_def
            split: response.split option.split)
    }
  }
  have lf: "lastFetch st_d = t0"
    unfolding st_d_def using nv by (rule fetchPlugins_direct_lastFetch)
  {
    assume "t1 - t0 < CACHE_DURATION \<and> CACHE st_d \<noteq> []"
    with lf show "fetchPlugins_direct net' t1 st_d
                = (Inr (Some (CACHE st_d)), st_d, [])"
      by (simp add: fetchPlugins_direct_def)
  }
  {
    assume "\<not> (t1 - t0 < CACHE_DURATION \<and> CACHE st_d \<noteq> [])"
    with lf have "\<not> cache_valid t1 st_d"
      by (simp add: cache_valid_def)
    then show "take 1 (snd (snd (fetchPlugins_direct net' t1 st_d)))
                = [Search_topic]"
      by (rule fetchPlugins_direct_first_request)
  }
  {
    assume r: "fst (fetchPlugins_direct net t0 st) = Inr (Some listed_plugins)"
    show m: "CACHE st_d = merge_cache (CACHE st) listed_plugins"
      unfolding st_d_def using nv r by (rule fetchPlugins_direct_CACHE)
    {
      assume "CACHE st = [] \<and> unique_ids listed_plugins"
      with m show "CACHE st_d = listed_plugins"
        by (simp add: merge_cache_empty)
    }
  }
qed

theorem cache_answers_within_window_witness:
  "fst (fetchPlugins_backend sample_backend start_time initial_loader)
     = Some [plugin_A, plugin_B]
   \<and> fetchPlugins_backend failing_backend (start_time + 1000)
       (fst (snd (fetchPlugins_backend sample_backend start_time initial_loader)))
     = (Some [plugin_A, plugin_B],
        fst (snd (fetchPlugins_backend sample_backend start_time initial_loader)), [])
   \<and> snd (snd (fetchPlugins_backend failing_backend (start_time + 300000)
       (fst (snd (fetchPlugins_backend sample_backend start_time initial_loader)))))
     = [Api_plugins]
   \<and> fst (fetchPlugins_direct failing_github (start_time + 1000)
       (fst (snd (fetchPlugins_direct sample_github start_time initial_loader))))
     = Inr (Some [make_plugin repo_one sample_package sample_release (logo_path repo_one),
                  make_plugin repo_four sample_package sample_release placeholder_logo])
   \<and> snd (snd (fetchPlugins_direct failing_github (start_time + 1000)
       (fst (snd (fetchPlugins_direct sample_github start_time initial_loader)))))
     = []
   \<and> take 1 (snd (snd (fetchPlugins_direct failing_github (start_time + 300000)
       (fst (snd (fetchPlugins_direct sample_github start_time initial_loader))))))
     = [Search_topic]"
proof -
  let ?b = "fst (snd (fetchPlugins_backend sample_backend start_time initial_loader))"
  let ?d = "fst (snd (fetchPlugins_direct sample_github start_time initial_loader))"
  let ?listed = "[make_plugin repo_one sample_package sample_release (logo_path repo_one),
                  make_plugin repo_four sample_package sample_release placeholder_logo]"
  have nv: "\<not> cache_valid start_time (initial_loader :: (string, unit) loader)"
    by (simp add: cache_valid_def initial_loader_def)
  have h: "get_plugins sample_backend = Response 200 (Some [plugin_A, plugin_B]) \<and> is_ok 200"
    by (simp add: sample_backend_def is_ok_def)
  have w1: "start_time + 1000 - start_time < CACHE_DURATION \<and> [plugin_A, plugin_B] \<noteq> []"
    by (simp add: CACHE_DURATION_def)
  have w2: "\<not> (start_time + 300000 - start_time < CACHE_DURATION
                \<and> [plugin_A, plugin_B] \<noteq> [])"
    by (simp add: CACHE_DURATION_def)
  have run: "fst (fetchPlugins_direct sample_github start_time initial_loader)
               = Inr (Some ?listed)"
    by code_simp
  have e: "CACHE (initial_loader :: (string, unit) loader) = [] \<and> unique_ids ?listed"
    by code_simp
  note t = cache_answers_within_window [OF nv]
  from h w1 t [where api = sample_backend and status = 200
      and plugins = "[plugin_A, plugin_B]" and ?t1.0 = "start_time + 1000"
      and api' = failing_backend]
  have a: "fst (fetchPlugins_backend sample_backend start_time initial_loader)
     = Some [plugin_A, plugin_B]"
    and b: "fetchPlugins_backend failing_backend (start_time + 1000) ?b
     = (Some [plugin_A, plugin_B], ?b, [])"
    by blast+
  from h w2 t [where api = sample_backend and status = 200
      and plugins = "[plugin_A, plugin_B]" and ?t1.0 = "start_time + 300000"
      and api' = failing_backend]
  have c: "snd (snd (fetchPlugins_backend failing_backend (start_time + 300000) ?b))
     = [Api_plugins]"
    by blast
  from run e t [where net = sample_github and listed_plugins = ?listed]
  have cache: "CACHE ?d = ?listed"
    by blast
  then have w3: "start_time + 1000 - start_time < CACHE_DURATION \<and> CACHE ?d \<noteq> []"
    and w4: "\<not> (start_time + 300000 - start_time < CACHE_DURATION \<and> CACHE ?d \<noteq> [])"
    by (simp_all add: CACHE_DURATION_def)
  from w3 cache t [where net = sample_github and ?t1.0 = "start_time + 1000"
      and net' = failing_github]
  have d: "fst (fetchPlugins_direct failing_github (start_time + 1000) ?d)
             = Inr (Some ?listed)"
    "snd (snd (fetchPlugins_direct failing_github (start_time + 1000) ?d)) = []"
    by simp_all
  from w4 t [where net = sample_github and ?t1.0 = "start_time + 300000"
      and net' = failing_github]
  have f: "take 1 (snd (snd (fetchPlugins_direct failing_github (start_time + 300000) ?d)))
             = [Search_topic]"
    by blast
  from a b c d f show ?thesis by (simp only: simp_thms)
qed

text \<open>
  The claim as it is written fails when the fetch before left the cache empty: the backend
  answers the first call with an empty collection, and a second call one second later,
  well inside the window, goes to the network again.
\<close>

theorem empty_cache_refetch_counterexample:
  "fst (fetchPlugins_backend empty_backend start_time initial_loader) = Some []
   \<and> (start_time + 1000)
       - lastFetch (fst (snd (fetchPlugins_backend empty_backend start_time initial_loader)))
       < CACHE_DURATION
   \<and> snd (snd (fetchPlugins_backend empty_backend (start_time + 1000)
         (fst (snd (fetchPlugins_backend empty_backend start_time initial_loader)))))
       = [Api_plugins]"
proof (intro conjI)
  show "fst (fetchPlugins_backend empty_backend start_time initial_loader) = Some []"
    by code_simp
  show "(start_time + 1000)
       - lastFetch (fst (snd (fetchPlugins_backend empty_backend start_time initial_loader)))
       < CACHE_DURATION"
    by code_simp
  show "snd (snd (fetchPlugins_backend empty_backend (start_time + 1000)
         (fst (snd (fetchPlugins_backend empty_backend start_time initial_loader)))))
       = [Api_plugins]"
    by code_simp
qed

text \<open>
  Claim C4. The detail fetch of the backend design appends the fetched plugin to the cache
  whatever the cache holds: the removal it attempts is \<^verbatim>\<open>CACHE.slice(index, 1)\<close>, which
  copies and changes nothing. At the input below the list is fetched, and five minutes
  later, the window elapsed, the details of plugin 1 are fetched: the cache then holds
  two entries with id 1.
\<close>

theorem detail_fetch_duplicates_cached_id:
  "unique_ids (CACHE (run_calls [List_fetch start_time sample_backend] initial_loader))
   \<and> CACHE (run_calls [List_fetch start_time sample_backend,
                       Detail_fetch (start_time + 300000) 1 sample_backend] initial_loader)
       = [plugin_A, plugin_B, plugin_A]
   \<and> \<not> unique_ids
         (CACHE (run_calls [List_fetch start_time sample_backend,
                            Detail_fetch (start_time + 300000) 1 sample_backend]
                   initial_loader))"
proof (intro conjI)
  show "unique_ids (CACHE (run_calls [List_fetch start_time sample_backend] initial_loader))"
    by code_simp
  show "CACHE (run_calls [List_fetch start_time sample_backend,
                       Detail_fetch (start_time + 300000) 1 sample_backend] initial_loader)
       = [plugin_A, plugin_B, plugin_A]"
    by code_simp
  show "\<not> unique_ids
         (CACHE (run_calls [List_fetch start_time sample_backend,
                            Detail_fetch (start_time + 300000) 1 sample_backend]
                   initial_loader))"
    by code_simp
qed

text \<open>
  Claim C5, as the code has it. When the primary collection call answers with a status
  that is not a success, the loader returns a null collection, in both designs. In the
  direct design the load gives what its candidates give, taken in order. A
  \<^verbatim>\<open>package.json\<close> or a release list that answers with a status that is not a success
  is swallowed, and only that candidate is omitted: the candidates give what they would
  give without it. A logo probe that answers with such a status does not omit the
  candidate: it is listed with the placeholder logo. A request that is rejected, or a
  body that does not parse, is not swallowed: when every candidate is answered the
  candidates give, in order, what each gives on its own, and one candidate that is not
  answered makes the whole load fail with an exception.
\<close>

theorem load_error_policy:
  "\<not> cache_valid now st \<Longrightarrow>
   (get_plugins api = Response s1 b1 \<and> \<not> is_ok s1
      \<longrightarrow> fst (fetchPlugins_backend api now st) = None)
   \<and> (get_search net1 = Response s2 b2 \<and> \<not> is_ok s2
      \<longrightarrow> fst (fetchPlugins_direct net1 now st) = Inr None)
   \<and> (get_search net = Response s3 (Some result) \<and> is_ok s3
      \<longrightarrow> fst (fetchPlugins_direct net now st) =
            (case collect net (take (nat (total_count result)) (items result)) of
               Inl e \<Rightarrow> Inl e
             | Inr plugins \<Rightarrow>
                 if total_count result \<le> int (length (items result))
                 then Inr (Some plugins) else Inl TypeError))
   \<and> (get_package_json net (full_name repo) (default_branch repo) = Response s4 b4
       \<and> \<not> is_ok s4
      \<longrightarrow> collect net (xs @ repo # ys) = collect net (xs @ ys))
   \<and> (get_package_json net (full_name repo) (default_branch repo) = Response s5 (Some pkg)
       \<and> is_ok s5
       \<and> get_releases net (full_name repo) = Response s6 b6 \<and> \<not> is_ok s6
      \<longrightarrow> collect net (xs @ repo # ys) = collect net (xs @ ys))
   \<and> (get_package_json net (full_name repo) (default_branch repo) = Response s5 (Some pkg)
       \<and> is_ok s5
       \<and> get_releases net (full_name repo) = Response s7 (Some releases) \<and> is_ok s7
       \<and> releases \<noteq> []
       \<and> head_logo net (full_name repo) (default_branch repo) = Response s8 b8
       \<and> \<not> is_ok s8
      \<longrightarrow> answered net repo
          \<and> listed net repo = [make_plugin repo pkg (hd releases) placeholder_logo])
   \<and> ((\<forall>r\<in>set repos. answered net r)
      \<longrightarrow> collect net repos = Inr (concat (map (listed net) repos)))
   \<and> (r \<in> set repos \<and> \<not> answered net r \<longrightarrow> (\<exists>e. collect net repos = Inl e))"
proof (intro conjI impI)
  assume nv: "\<not> cache_valid now st"
  {
    assume "get_plugins api = Response s1 b1 \<and> \<not> is_ok s1"
    with nv show "fst (fetchPlugins_backend api now st) = None"
      by (auto simp: fetchPlugins_backend_def cache_valid_def)
  }
  {
    assume "get_search net1 = Response s2 b2 \<and> \<not> is_ok s2"
    with nv show "fst (fetchPlugins_direct net1 now st) = Inr None"
      by (auto simp: fetchPlugins_direct_def cache_valid_def Let_def)
  }
  {
    assume "get_search net = Response s3 (Some result) \<and> is_ok s3"
    then show "fst (fetchPlugins_direct net now st) =
            (case collect net (take (nat (total_count result)) (items result)) of
               Inl e \<Rightarrow> Inl e
             | Inr plugins \<Rightarrow>
                 if total_count result \<le> int (length (items result))
                 then Inr (Some plugins) else Inl TypeError)"
      using fetchPlugins_direct_collect [OF nv, of net s3 result] by simp
  }
next
  assume "get_package_json net (full_name repo) (default_branch repo) = Response s4 b4
       \<and> \<not> is_ok s4"
  then have "snd (process_repo net repo) = Inr None"
    by (simp add: process_repo_def Let_def)
  then show "collect net (xs @ repo # ys) = collect net (xs @ ys)"
    by (rule collect_skip)
next
  assume "get_package_json net (full_name repo) (default_branch repo) = Response s5 (Some pkg)
       \<and> is_ok s5
       \<and> get_releases net (full_name repo) = Response s6 b6 \<and> \<not> is_ok s6"
  then have "snd (process_repo net repo) = Inr None"
    by (simp add: process_repo_def Let_def)
  then show "collect net (xs @ repo # ys) = collect net (xs @ ys)"
    by (rule collect_skip)
next
  assume "get_package_json net (full_name repo) (default_branch repo) = Response s5 (Some pkg)
       \<and> is_ok s5
       \<and> get_releases net (full_name repo) = Response s7 (Some releases) \<and> is_ok s7
       \<and> releases \<noteq> []
       \<and> head_logo net (full_name repo) (default_branch repo) = Response s8 b8
       \<and> \<not> is_ok s8"
  then show "answered net repo"
    and "listed net repo = [make_plugin repo pkg (hd releases) placeholder_logo]"
    by (simp_all add: answered_def listed_def process_repo_def Let_def)
next
  assume "\<forall>r\<in>set repos. answered net r"
  then show "collect net repos = Inr (concat (map (listed net) repos))"
    by (rule collect_answered)
next
  assume "r \<in> set repos \<and> \<not> answered net r"
  then show "\<exists>e. collect net repos = Inl e"
    using collect_not_answered [of r repos net] by simp
qed

theorem load_error_policy_witness:
  "fst (fetchPlugins_backend failing_backend start_time initial_loader) = None
   \<and> fst (fetchPlugins_direct failing_github start_time initial_loader) = Inr None
   \<and> fst (fetchPlugins_direct sample_github start_time initial_loader) =
       Inr (Some (concat (map (listed sample_github) [repo_one, repo_four])))
   \<and> listed sample_github repo_four =
       [make_plugin repo_four sample_package sample_release placeholder_logo]
   \<and> (\<exists>e. fst (fetchPlugins_direct broken_github start_time initial_loader) = Inl e)"
proof -
  let ?items = "[repo_one, repo_two, repo_three, repo_four]"
  let ?result = "\<lparr>total_count = 4, incomplete_results = False, items = ?items\<rparr>"
  have nv: "\<not> cache_valid start_time (initial_loader :: (string, unit) loader)"
    by (simp add: cache_valid_def initial_loader_def)
  have h1: "get_plugins failing_backend = Response 503 None \<and> \<not> is_ok 503"
    by (simp add: failing_backend_def sample_backend_def is_ok_def)
  have h2: "get_search failing_github = Response 403 None \<and> \<not> is_ok 403"
    by (simp add: failing_github_def sample_github_def is_ok_def)
  have h3: "get_search sample_github = Response 200 (Some ?result) \<and> is_ok 200"
    by (simp add: sample_github_def is_ok_def)
  have h3b: "get_search broken_github = Response 200 (Some ?result) \<and> is_ok 200"
    by (simp add: broken_github_def sample_github_def is_ok_def)
  have h4: "get_package_json sample_github (full_name repo_two) (default_branch repo_two)
              = Response 404 None \<and> \<not> is_ok 404"
    by (simp add: sample_github_def repo_two_def is_ok_def)
  have h5: "get_package_json sample_github (full_name repo_three) (default_branch repo_three)
              = Response 200 (Some sample_package) \<and> is_ok 200
            \<and> get_releases sample_github (full_name repo_three) = Response 500 None
            \<and> \<not> is_ok 500"
    by (simp add: sample_github_def repo_three_def is_ok_def)
  have h6: "get_package_json sample_github (full_name repo_four) (default_branch repo_four)
              = Response 200 (Some sample_package) \<and> is_ok 200
            \<and> get_releases sample_github (full_name repo_four)
              = Response 200 (Some [sample_release, older_release]) \<and> is_ok 200
            \<and> [sample_release, older_release] \<noteq> []
            \<and> head_logo sample_github (full_name repo_four) (default_branch repo_four)
              = Response 404 None
            \<and> \<not> is_ok 404"
    by (simp add: sample_github_def repo_four_def is_ok_def)
  have h7: "\<forall>r\<in>set [repo_one, repo_four]. answered sample_github r"
    by code_simp
  have h8: "repo_two \<in> set ?items \<and> \<not> answered broken_github repo_two"
    by code_simp
  note p = load_error_policy [OF nv]
  from h1 h2
    p [where api = failing_backend and ?s1.0 = 503 and ?b1.0 = None
         and ?net1.0 = failing_github and ?s2.0 = 403 and ?b2.0 = None]
  have a: "fst (fetchPlugins_backend failing_backend start_time initial_loader) = None"
    and b: "fst (fetchPlugins_direct failing_github start_time initial_loader) = Inr None"
    by simp_all
  from h4 p [where net = sample_github and repo = repo_two and ?s4.0 = 404 and ?b4.0 = None
               and xs = "[repo_one]" and ys = "[repo_three, repo_four]"]
  have s2: "collect sample_github ?items
              = collect sample_github [repo_one, repo_three, repo_four]"
    by (simp del: collect.simps)
  from h5 p [where net = sample_github and repo = repo_three and ?s5.0 = 200
               and pkg = sample_package and ?s6.0 = 500 and ?b6.0 = None
               and xs = "[repo_one]" and ys = "[repo_four]"]
  have s3: "collect sample_github [repo_one, repo_three, repo_four]
              = collect sample_github [repo_one, repo_four]"
    by (simp del: collect.simps)
  from h7 p [where net = sample_github and repos = "[repo_one, repo_four]"]
  have s4: "collect sample_github [repo_one, repo_four]
              = Inr (concat (map (listed sample_github) [repo_one, repo_four]))"
    by (simp del: collect.simps)
  from s2 s3 s4
  have s: "collect sample_github ?items
             = Inr (concat (map (listed sample_github) [repo_one, repo_four]))"
    by (simp only:)
  from h3 s p [where net = sample_github and ?s3.0 = 200 and result = ?result]
  have c: "fst (fetchPlugins_direct sample_github start_time initial_loader) =
       Inr (Some (concat (map (listed sample_github) [repo_one, repo_four])))"
    by (simp del: collect.simps)
  from h6 p [where net = sample_github and repo = repo_four and ?s5.0 = 200
               and pkg = sample_package and ?s7.0 = 200
               and releases = "[sample_release, older_release]"
               and ?s8.0 = 404 and ?b8.0 = None]
  have d: "listed sample_github repo_four =
       [make_plugin repo_four sample_package sample_release placeholder_logo]"
    by simp
  from h8 p [where net = broken_github and r = repo_two and repos = ?items]
  have "\<exists>e. collect broken_github ?items = Inl e"
    by (simp del: collect.simps)
  then obtain e where "collect broken_github ?items = Inl e" ..
  with h3b p [where net = broken_github and ?s3.0 = 200 and result = ?result]
  have e: "\<exists>e. fst (fetchPlugins_direct broken_github start_time initial_loader) = Inl e"
    by (simp del: collect.simps)
  from a b c d e show ?thesis by (simp only: simp_thms)
qed

text \<open>
  The claim as it is written fails twice. The logo probe of the fourth sample candidate
  answers 404, and the candidate is listed all the same, with the placeholder. And when
  the \<^verbatim>\<open>package.json\<close> of the second candidate answers 200 with a body that does not
  parse, the whole load fails with the syntax error, although the first and the fourth
  candidate are sound.
\<close>

theorem failed_logo_probe_counterexample:
  "head_logo sample_github (full_name repo_four) (default_branch repo_four)
     = Response 404 None
   \<and> \<not> is_ok 404
   \<and> fst (fetchPlugins_direct sample_github start_time initial_loader) =
       Inr (Some [make_plugin repo_one sample_package sample_release (logo_path repo_one),
                  make_plugin repo_four sample_package sample_release placeholder_logo])
   \<and> get_package_json broken_github (full_name repo_two) (default_branch repo_two)
       = Response 200 None
   \<and> fst (fetchPlugins_direct broken_github start_time initial_loader) = Inl SyntaxError"
proof (intro conjI)
  show "head_logo sample_github (full_name repo_four) (default_branch repo_four)
     = Response 404 None"
    by code_simp
  show "\<not> is_ok 404"
    by code_simp
  show "fst (fetchPlugins_direct sample_github start_time initial_loader) =
       Inr (Some [make_plugin repo_one sample_package sample_release (logo_path repo_one),
                  make_plugin repo_four sample_package sample_release placeholder_logo])"
    by code_simp
  show "get_package_json broken_github (full_name repo_two) (default_branch repo_two)
       = Response 200 None"
    by code_simp
  show "fst (fetchPlugins_direct broken_github start_time initial_loader) = Inl SyntaxError"
    by code_simp
qed



text \<open>
  Claim C7, as the code has it. On a page whose latest release is not cached and whose
  effect stays alive, a 404 of the latest-release end point makes the loader ask for the
  release list with \<^verbatim>\<open>per_page=1\<close>, so for one entry and not for all releases, and store
  the first entry of the answer that is not a draft, in the state and in the cache. When
  the answer holds at most the one entry asked for, that is its entry if it is not a
  draft, and \<^verbatim>\<open>null\<close> otherwise. When the answer holds no entry that is not a draft,
  the value stored is \<^verbatim>\<open>null\<close>, no error is set and the side bar shows "No releases
  yet". When the release list answers with a status that is not a success, the effect
  ends with the error of that status, which the side bar shows, and nothing is cached.
\<close>

theorem latest_release_fallback:
  assumes "latestReleaseCache st (cacheKey st) = None"
    and "get_latest_release api (route_owner st) (route_name st) = Response 404 b"
  shows "(get_releases_page api (route_owner st) (route_name st) 1 = Response s2 (Some arr)
            \<and> is_ok s2
          \<longrightarrow> fst (latest_effect api True st) =
                [Repo_latest_release (route_owner st) (route_name st),
                 Repo_releases_page (route_owner st) (route_name st) 1]
              \<and> slot_value (latestRelease (snd (latest_effect api True st)))
                  = find (\<lambda>x. \<not> draft x) arr
              \<and> slot_error (latestRelease (snd (latest_effect api True st))) = None
              \<and> latestReleaseCache (snd (latest_effect api True st)) (cacheKey st)
                  = Some (find (\<lambda>x. \<not> draft x) arr)
              \<and> (length arr \<le> 1
                  \<longrightarrow> slot_value (latestRelease (snd (latest_effect api True st)))
                      = (if arr \<noteq> [] \<and> \<not> draft (hd arr) then Some (hd arr) else None))
              \<and> (find (\<lambda>x. \<not> draft x) arr = None
                  \<longrightarrow> shows_no_releases_yet (snd (latest_effect api True st))
                      \<and> \<not> shows_latest_error (snd (latest_effect api True st))))
         \<and> (get_releases_page api (route_owner st) (route_name st) 1 = Response s3 b3
            \<and> \<not> is_ok s3
          \<longrightarrow> fst (latest_effect api True st) =
                [Repo_latest_release (route_owner st) (route_name st),
                 Repo_releases_page (route_owner st) (route_name st) 1]
              \<and> slot_error (latestRelease (snd (latest_effect api True st)))
                  = Some (Status_failure ''Failed to load releases'' s3)
              \<and> shows_latest_error (snd (latest_effect api True st))
              \<and> \<not> shows_no_releases_yet (snd (latest_effect api True st))
              \<and> slot_value (latestRelease (snd (latest_effect api True st)))
                  = slot_value (latestRelease st)
              \<and> latestReleaseCache (snd (latest_effect api True st)) (cacheKey st) = None)"
proof -
  have one: "find (\<lambda>x. \<not> draft x) arr
               = (if arr \<noteq> [] \<and> \<not> draft (hd arr) then Some (hd arr) else None)"
    if "length arr \<le> 1" for arr :: "github_release list"
    using that by (cases arr) auto
  from assms one [of arr] show ?thesis
    by (auto simp: latest_effect_def fetch_latest_def settle_def begin_fetch_def
        shows_no_releases_yet_def shows_latest_error_def cacheKey_def Let_def)
qed

theorem latest_release_fallback_witness:
  "slot_value (latestRelease (snd (latest_effect released_api True fresh_page)))
     = Some sample_release
   \<and> fst (latest_effect drafts_api True fresh_page)
       = [Repo_latest_release ''alice'' ''economy'', Repo_releases_page ''alice'' ''economy'' 1]
   \<and> shows_no_releases_yet (snd (latest_effect drafts_api True fresh_page))
   \<and> latestReleaseCache (snd (latest_effect drafts_api True fresh_page)) ''alice/economy''
       = Some None
   \<and> shows_latest_error (snd (latest_effect refusing_api True fresh_page))
   \<and> slot_error (latestRelease (snd (latest_effect refusing_api True fresh_page)))
       = Some (Status_failure ''Failed to load releases'' 403)"
proof -
  have k: "latestReleaseCache fresh_page (cacheKey fresh_page) = None"
    and o: "route_owner fresh_page = ''alice''" and n: "route_name fresh_page = ''economy''"
    and key: "cacheKey fresh_page = ''alice/economy''"
    by (simp_all add: fresh_page_def open_page_def no_caches_def cacheKey_def)
  have l: "get_latest_release released_api (route_owner fresh_page) (route_name fresh_page)
             = Response 404 None"
    "get_latest_release drafts_api (route_owner fresh_page) (route_name fresh_page)
             = Response 404 None"
    "get_latest_release refusing_api (route_owner fresh_page) (route_name fresh_page)
             = Response 404 None"
    by (simp_all add: released_api_def bare_api_def drafts_api_def refusing_api_def)
  have r: "get_releases_page released_api (route_owner fresh_page) (route_name fresh_page) 1
             = Response 200 (Some [sample_release]) \<and> is_ok 200"
    "get_releases_page drafts_api (route_owner fresh_page) (route_name fresh_page) 1
             = Response 200 (Some [draft_release]) \<and> is_ok 200"
    "get_releases_page refusing_api (route_owner fresh_page) (route_name fresh_page) 1
             = Response 403 None \<and> \<not> is_ok 403"
    by (simp_all add: released_api_def bare_api_def drafts_api_def refusing_api_def is_ok_def)
  have f: "find (\<lambda>x. \<not> draft x) [sample_release] = Some sample_release"
    "find (\<lambda>x. \<not> draft x) [draft_release] = None"
    "\<not> draft sample_release"
    by (simp_all add: draft_release_def sample_release_def)
  from r(1) f(1,3)
    latest_release_fallback [OF k l(1), where ?s2.0 = 200 and arr = "[sample_release]"]
  have a: "slot_value (latestRelease (snd (latest_effect released_api True fresh_page)))
     = Some sample_release"
    by simp
  from r(2) f(2) o n key
    latest_release_fallback [OF k l(2), where ?s2.0 = 200 and arr = "[draft_release]"]
  have b: "fst (latest_effect drafts_api True fresh_page)
       = [Repo_latest_release ''alice'' ''economy'', Repo_releases_page ''alice'' ''economy'' 1]"
    "shows_no_releases_yet (snd (latest_effect drafts_api True fresh_page))"
    "latestReleaseCache (snd (latest_effect drafts_api True fresh_page)) ''alice/economy''
       = Some None"
    by simp_all
  from r(3) latest_release_fallback [OF k l(3), where ?s3.0 = 403 and ?b3.0 = None]
  have c: "shows_latest_error (snd (latest_effect refusing_api True fresh_page))"
    "slot_error (latestRelease (snd (latest_effect refusing_api True fresh_page)))
       = Some (Status_failure ''Failed to load releases'' 403)"
    by simp_all
  from a b c show ?thesis by (simp only: simp_thms)
qed

text \<open>
  The claim as it is written fails at the extent of the listing: the fallback asks for one
  entry, not for all releases. The sample repository has a draft and, after it, a release
  that is not a draft, as its release list of 25 entries shows; the fallback is answered
  with the draft alone, stores \<^verbatim>\<open>null\<close> and shows "No releases yet".
\<close>

theorem single_entry_listing_counterexample:
  "get_latest_release bare_api ''alice'' ''economy'' = Response 404 None
   \<and> get_releases_page bare_api ''alice'' ''economy'' 25
       = Response 200 (Some [draft_release, sample_release])
   \<and> \<not> draft sample_release
   \<and> get_releases_page bare_api ''alice'' ''economy'' 1 = Response 200 (Some [draft_release])
   \<and> fst (latest_effect bare_api True fresh_page)
       = [Repo_latest_release ''alice'' ''economy'', Repo_releases_page ''alice'' ''economy'' 1]
   \<and> slot_value (latestRelease (snd (latest_effect bare_api True fresh_page))) = None
   \<and> shows_no_releases_yet (snd (latest_effect bare_api True fresh_page))"
proof (intro conjI)
  show "get_latest_release bare_api ''alice'' ''economy'' = Response 404 None"
    by (simp add: bare_api_def)
  show "get_releases_page bare_api ''alice'' ''economy'' 25
       = Response 200 (Some [draft_release, sample_release])"
    by (simp add: bare_api_def)
  show "\<not> draft sample_release"
    by (simp add: sample_release_def)
  show "get_releases_page bare_api ''alice'' ''economy'' 1 = Response 200 (Some [draft_release])"
    by (simp add: bare_api_def)
  show "fst (latest_effect bare_api True fresh_page)
       = [Repo_latest_release ''alice'' ''economy'', Repo_releases_page ''alice'' ''economy'' 1]"
    by code_simp
  show "slot_value (latestRelease (snd (latest_effect bare_api True fresh_page))) = None"
    by code_simp
  show "shows_no_releases_yet (snd (latest_effect bare_api True fresh_page))"
    by code_simp
qed

text \<open>
  Claim C8, as the code has it. While the effect is alive, a README request that answers
  404 stores the empty string (not \<^verbatim>\<open>null\<close>), a gallery request that answers 404 stores
  the empty sequence, and a contributors request that answers 204 stores the empty
  sequence; each also writes that value to its cache, and the error of the resource stays
  \<^verbatim>\<open>null\<close>. A contributors request that answers 404 is an error like any other status
  that is not a success: the value stays as it was and nothing is cached.
\<close>

theorem not_found_is_normalized:
  "(tab st = Readme_tab \<and> slot_value (readme st) = None
      \<and> get_readme api (route_owner st) (route_name st) = Response 404 b1
    \<longrightarrow> slot_value (readme (snd (readme_effect decode api True st))) = Some ''''
        \<and> slot_error (readme (snd (readme_effect decode api True st))) = None
        \<and> readmeCache (snd (readme_effect decode api True st)) (cacheKey st) = Some '''')
   \<and> (tab st = Gallery_tab \<and> slot_value (galleryContent st) = None
      \<and> get_gallery api (route_owner st) (route_name st) = Response 404 b2
    \<longrightarrow> slot_value (galleryContent (snd (gallery_effect api True st))) = Some []
        \<and> slot_error (galleryContent (snd (gallery_effect api True st))) = None
        \<and> galleryCache (snd (gallery_effect api True st)) (cacheKey st) = Some [])
   \<and> (contributorsCache st (cacheKey st) = None
      \<and> get_contributors api (route_owner st) (route_name st) = Response 204 b3
    \<longrightarrow> slot_value (contributors (snd (contributors_effect api True st))) = Some []
        \<and> slot_error (contributors (snd (contributors_effect api True st))) = None
        \<and> contributorsCache (snd (contributors_effect api True st)) (cacheKey st) = Some [])
   \<and> (contributorsCache st (cacheKey st) = None
      \<and> get_contributors api (route_owner st) (route_name st) = Response 404 b4
    \<longrightarrow> slot_error (contributors (snd (contributors_effect api True st)))
          = Some (Status_failure ''Failed to load contributors'' 404)
        \<and> slot_value (contributors (snd (contributors_effect api True st)))
          = slot_value (contributors st)
        \<and> contributorsCache (snd (contributors_effect api True st)) (cacheKey st) = None)"
  by (auto simp: readme_effect_def fetch_readme_def gallery_effect_def fetch_gallery_def
      contributors_effect_def fetch_contributors_def settle_def begin_fetch_def
      cache_set_def is_ok_def Let_def)

theorem not_found_is_normalized_witness:
  "slot_value (readme (snd (readme_effect no_decode bare_api True fresh_page))) = Some ''''
   \<and> slot_error (readme (snd (readme_effect no_decode bare_api True fresh_page))) = None
   \<and> slot_value (galleryContent
        (snd (gallery_effect bare_api True (fresh_page\<lparr>tab := Gallery_tab\<rparr>)))) = Some []
   \<and> slot_error (galleryContent
        (snd (gallery_effect bare_api True (fresh_page\<lparr>tab := Gallery_tab\<rparr>)))) = None
   \<and> slot_value (contributors (snd (contributors_effect bare_api True fresh_page))) = Some []
   \<and> slot_error (contributors (snd (contributors_effect bare_api True fresh_page))) = None
   \<and> slot_error (contributors (snd (contributors_effect refusing_api True fresh_page)))
       = Some (Status_failure ''Failed to load contributors'' 404)"
proof -
  let ?g = "fresh_page\<lparr>tab := Gallery_tab\<rparr>"
  have h1: "tab fresh_page = Readme_tab \<and> slot_value (readme fresh_page) = None
      \<and> get_readme bare_api (route_owner fresh_page) (route_name fresh_page)
          = Response 404 None"
    by (simp add: fresh_page_def open_page_def no_caches_def bare_api_def)
  have h2: "tab ?g = Gallery_tab \<and> slot_value (galleryContent ?g) = None
      \<and> get_gallery bare_api (route_owner ?g) (route_name ?g) = Response 404 None"
    by (simp add: fresh_page_def open_page_def no_caches_def bare_api_def)
  have h3: "contributorsCache fresh_page (cacheKey fresh_page) = None
      \<and> get_contributors bare_api (route_owner fresh_page) (route_name fresh_page)
          = Response 204 None"
    by (simp add: fresh_page_def open_page_def no_caches_def bare_api_def)
  have h4: "contributorsCache fresh_page (cacheKey fresh_page) = None
      \<and> get_contributors refusing_api (route_owner fresh_page) (route_name fresh_page)
          = Response 404 None"
    by (simp add: fresh_page_def open_page_def no_caches_def refusing_api_def bare_api_def)
  from h1 not_found_is_normalized [where st = fresh_page and api = bare_api
       and ?b1.0 = None and decode = no_decode]
  have a: "slot_value (readme (snd (readme_effect no_decode bare_api True fresh_page)))
             = Some ''''"
    "slot_error (readme (snd (readme_effect no_decode bare_api True fresh_page))) = None"
    by blast+
  from h2 not_found_is_normalized [where st = ?g and api = bare_api and ?b2.0 = None]
  have b: "slot_value (galleryContent (snd (gallery_effect bare_api True ?g))) = Some []"
    "slot_error (galleryContent (snd (gallery_effect bare_api True ?g))) = None"
    by blast+
  from h3 not_found_is_normalized [where st = fresh_page and api = bare_api
       and ?b3.0 = None]
  have c: "slot_value (contributors (snd (contributors_effect bare_api True fresh_page)))
             = Some []"
    "slot_error (contributors (snd (contributors_effect bare_api True fresh_page))) = None"
    by blast+
  from h4 not_found_is_normalized [where st = fresh_page and api = refusing_api
       and ?b4.0 = None]
  have d: "slot_error (contributors (snd (contributors_effect refusing_api True fresh_page)))
       = Some (Status_failure ''Failed to load contributors'' 404)"
    by blast
  from a b c d show ?thesis by (simp only: simp_thms)
qed

text \<open>
  The claim as it is written fails for the contributors: their request answers 404, and the
  page stores an error and no sequence.
\<close>

theorem contributors_not_found_counterexample:
  "get_contributors refusing_api (route_owner fresh_page) (route_name fresh_page)
     = Response 404 None
   \<and> slot_error (contributors (snd (contributors_effect refusing_api True fresh_page)))
       = Some (Status_failure ''Failed to load contributors'' 404)
   \<and> slot_value (contributors (snd (contributors_effect refusing_api True fresh_page)))
       = None"
proof (intro conjI)
  show "get_contributors refusing_api (route_owner fresh_page) (route_name fresh_page)
     = Response 404 None"
    by (simp add: refusing_api_def)
  show "slot_error (contributors (snd (contributors_effect refusing_api True fresh_page)))
       = Some (Status_failure ''Failed to load contributors'' 404)"
    by code_simp
  show "slot_value (contributors (snd (contributors_effect refusing_api True fresh_page)))
       = None"
    by code_simp
qed

text \<open>
  Claim C9. Choosing a tab other than the current one runs its lazy effect. When the value
  of the tab's resource is not \<^verbatim>\<open>null\<close>, the empty string and the empty sequence
  included, no request is issued and only the tab changes. When the value is \<^verbatim>\<open>null\<close>,
  the request of the resource is issued, and the value is there afterwards exactly when
  the effect is still alive and the network delivers the resource. Choosing another tab
  then leaves the resource as it is, and choosing the first tab again issues no request
  when the attempt has stored a value, and the request of the resource when the attempt
  has failed. Choosing the current tab does nothing. A page opened on a cache that holds
  the key starts with the value of the cache, so its first render asks nothing either.
\<close>

theorem lazy_fetch_idempotent:
  fixes st :: page and t t' :: tab and api api' :: github_api and alive alive' :: bool
    and decode decode' :: "string \<Rightarrow> string option"
  defines "st1 \<equiv> snd (activate_tab decode api alive t st)"
    and "st2 \<equiv> snd (activate_tab decode' api' alive' t'
                       (snd (activate_tab decode api alive t st)))"
  assumes "t \<noteq> tab st" and "t' \<noteq> t"
  shows "(resource_loaded t st
            \<longrightarrow> activate_tab decode api alive t st = ([], st\<lparr>tab := t\<rparr>))
         \<and> (\<not> resource_loaded t st
            \<longrightarrow> take 1 (fst (activate_tab decode api alive t st)) = [resource_request t st]
                \<and> resource_loaded t st1 = (alive \<and> delivers decode api t st))
         \<and> tab st1 = t
         \<and> tab st2 = t'
         \<and> resource_loaded t st2 = resource_loaded t st1
         \<and> (\<not> resource_loaded t st \<and> alive \<and> delivers decode api t st
            \<longrightarrow> activate_tab decode'' api'' alive'' t st2 = ([], st2\<lparr>tab := t\<rparr>))
         \<and> (\<not> resource_loaded t st \<and> \<not> (alive \<and> delivers decode api t st)
            \<longrightarrow> take 1 (fst (activate_tab decode'' api'' alive'' t st2))
                  = [resource_request t st])
         \<and> activate_tab decode api alive (tab st) st = ([], st)
         \<and> (readmeCache caches (ow @ ''/'' @ nm) \<noteq> None
            \<longrightarrow> resource_loaded Readme_tab (open_page caches ow nm)
                \<and> mount decode api alive caches ow nm = ([], open_page caches ow nm))
         \<and> (readmeCache caches (ow @ ''/'' @ nm) = None
            \<longrightarrow> take 1 (fst (mount decode api alive caches ow nm)) = [Repo_readme ow nm]
                \<and> resource_loaded Readme_tab (snd (mount decode api alive caches ow nm))
                    = (alive \<and> delivers decode api Readme_tab (open_page caches ow nm)))
         \<and> (releasesCache caches (ow @ ''/'' @ nm) \<noteq> None
            \<longrightarrow> resource_loaded Versions_tab (open_page caches ow nm))
         \<and> (commitsCache caches (ow @ ''/'' @ nm) \<noteq> None
            \<longrightarrow> resource_loaded Changelog_tab (open_page caches ow nm))
         \<and> (galleryCache caches (ow @ ''/'' @ nm) \<noteq> None
            \<longrightarrow> resource_loaded Gallery_tab (open_page caches ow nm))"
proof -
  have tab1: "tab st1 = t" and tab2: "tab st2 = t'"
    by (simp_all add: st1_def st2_def activate_tab_tab)
  have same: "resource_loaded t st2 = resource_loaded t st1"
    using assms(4) by (simp add: st1_def st2_def activate_tab_other)
  have req: "resource_request t st2 = resource_request t st"
    by (simp add: st2_def activate_tab_request)
  have a: "activate_tab decode api alive t st = ([], st\<lparr>tab := t\<rparr>)"
    if "resource_loaded t st"
    using assms(3) that by (rule activate_tab_loaded)
  have b: "take 1 (fst (activate_tab decode api alive t st)) = [resource_request t st]"
    and c: "resource_loaded t st1 = (alive \<and> delivers decode api t st)"
    if "\<not> resource_loaded t st"
  proof -
    from assms(3) that
    show "take 1 (fst (activate_tab decode api alive t st)) = [resource_request t st]"
      by (rule activate_tab_first_request)
    from assms(3) that
    show "resource_loaded t st1 = (alive \<and> delivers decode api t st)"
      unfolding st1_def by (rule activate_tab_delivers)
  qed
  have d: "activate_tab decode'' api'' alive'' t st2 = ([], st2\<lparr>tab := t\<rparr>)"
    if "\<not> resource_loaded t st \<and> alive \<and> delivers decode api t st"
  proof -
    from that c same have "resource_loaded t st2" by simp
    with assms(4) tab2 show ?thesis by (intro activate_tab_loaded) simp_all
  qed
  have e: "take 1 (fst (activate_tab decode'' api'' alive'' t st2)) = [resource_request t st]"
    if "\<not> resource_loaded t st \<and> \<not> (alive \<and> delivers decode api t st)"
  proof -
    from that c same have "\<not> resource_loaded t st2" by simp
    with assms(4) tab2
    have "take 1 (fst (activate_tab decode'' api'' alive'' t st2)) = [resource_request t st2]"
      by (intro activate_tab_first_request) simp_all
    with req show ?thesis by (simp only:)
  qed
  have f: "activate_tab decode api alive (tab st) st = ([], st)"
    by (simp add: activate_tab_def)
  have g: "resource_loaded Readme_tab (open_page caches ow nm)"
    if "readmeCache caches (ow @ ''/'' @ nm) \<noteq> None"
    using that by (simp add: resource_loaded_def open_page_def Let_def)
  have h: "mount decode api alive caches ow nm = ([], open_page caches ow nm)"
    if "readmeCache caches (ow @ ''/'' @ nm) \<noteq> None"
  proof -
    have "tab (open_page caches ow nm) = Readme_tab"
      by (simp add: open_page_def Let_def)
    with g [OF that] show ?thesis
      unfolding mount_def by (intro run_lazy_effects_loaded) simp
  qed
  have m: "take 1 (fst (mount decode api alive caches ow nm)) = [Repo_readme ow nm]"
    and n: "resource_loaded Readme_tab (snd (mount decode api alive caches ow nm))
              = (alive \<and> delivers decode api Readme_tab (open_page caches ow nm))"
    if "readmeCache caches (ow @ ''/'' @ nm) = None"
  proof -
    have t: "tab (open_page caches ow nm) = Readme_tab"
      and q: "resource_request Readme_tab (open_page caches ow nm) = Repo_readme ow nm"
      by (simp_all add: open_page_def resource_request_def Let_def)
    from that have "\<not> resource_loaded (tab (open_page caches ow nm)) (open_page caches ow nm)"
      by (simp add: resource_loaded_def open_page_def Let_def)
    from run_lazy_effects_first_request [OF this, of decode api alive]
      run_lazy_effects_delivers [OF this, of decode api alive]
    show "take 1 (fst (mount decode api alive caches ow nm)) = [Repo_readme ow nm]"
      and "resource_loaded Readme_tab (snd (mount decode api alive caches ow nm))
              = (alive \<and> delivers decode api Readme_tab (open_page caches ow nm))"
      unfolding mount_def t q by (simp_all only:)
  qed
  have i: "resource_loaded Versions_tab (open_page caches ow nm)"
    if "releasesCache caches (ow @ ''/'' @ nm) \<noteq> None"
    using that by (simp add: resource_loaded_def open_page_def Let_def)
  have j: "resource_loaded Changelog_tab (open_page caches ow nm)"
    if "commitsCache caches (ow @ ''/'' @ nm) \<noteq> None"
    using that by (simp add: resource_loaded_def open_page_def Let_def)
  have k: "resource_loaded Gallery_tab (open_page caches ow nm)"
    if "galleryCache caches (ow @ ''/'' @ nm) \<noteq> None"
    using that by (simp add: resource_loaded_def open_page_def Let_def)
  from a b c d e f g h i j k m n tab1 tab2 same show ?thesis
    by blast
qed

theorem lazy_fetch_idempotent_witness:
  "activate_tab no_decode refusing_api True Gallery_tab visited_page
     = ([], visited_page\<lparr>tab := Gallery_tab\<rparr>)
   \<and> take 1 (fst (activate_tab no_decode bare_api True Gallery_tab fresh_page))
       = [Repo_gallery ''alice'' ''economy'']
   \<and> slot_value (galleryContent
        (snd (activate_tab no_decode bare_api True Gallery_tab fresh_page))) = Some []
   \<and> fst (activate_tab no_decode refusing_api True Gallery_tab
            (snd (activate_tab no_decode refusing_api True Versions_tab
                    (snd (activate_tab no_decode bare_api True Gallery_tab fresh_page)))))
       = []
   \<and> \<not> resource_loaded Versions_tab
          (snd (activate_tab no_decode refusing_api True Versions_tab fresh_page))
   \<and> take 1 (fst (activate_tab no_decode bare_api True Versions_tab
                    (snd (activate_tab no_decode bare_api True Gallery_tab
                            (snd (activate_tab no_decode refusing_api True Versions_tab
                                    fresh_page))))))
       = [Repo_releases_page ''alice'' ''economy'' 25]
   \<and> activate_tab no_decode bare_api True Readme_tab fresh_page = ([], fresh_page)
   \<and> mount no_decode refusing_api True visited_page ''alice'' ''economy''
       = ([], open_page visited_page ''alice'' ''economy'')
   \<and> slot_value (readme (open_page visited_page ''alice'' ''economy'')) = Some ''''
   \<and> take 1 (fst (mount no_decode refusing_api True no_caches ''alice'' ''economy''))
       = [Repo_readme ''alice'' ''economy'']
   \<and> resource_loaded Versions_tab (open_page visited_page ''alice'' ''economy'')
   \<and> resource_loaded Changelog_tab (open_page visited_page ''alice'' ''economy'')
   \<and> resource_loaded Gallery_tab (open_page visited_page ''alice'' ''economy'')"
proof -
  let ?g = "snd (activate_tab no_decode bare_api True Gallery_tab fresh_page)"
  let ?v = "snd (activate_tab no_decode refusing_api True Versions_tab fresh_page)"
  have t0: "Gallery_tab \<noteq> tab fresh_page" "Versions_tab \<noteq> tab fresh_page"
    "Gallery_tab \<noteq> tab visited_page" "tab fresh_page = Readme_tab"
    by code_simp+
  have t1: "Versions_tab \<noteq> Gallery_tab" "Gallery_tab \<noteq> Versions_tab"
    by simp_all
  have l0: "\<not> resource_loaded Gallery_tab fresh_page"
    "\<not> resource_loaded Versions_tab fresh_page"
    "resource_loaded Gallery_tab visited_page"
    by code_simp+
  have n0: "delivers no_decode bare_api Gallery_tab fresh_page"
    "\<not> delivers no_decode refusing_api Versions_tab fresh_page"
    by code_simp+
  have q0: "resource_request Gallery_tab fresh_page = Repo_gallery ''alice'' ''economy''"
    "resource_request Versions_tab fresh_page = Repo_releases_page ''alice'' ''economy'' 25"
    by code_simp+
  have c0: "readmeCache visited_page (''alice'' @ ''/'' @ ''economy'') \<noteq> None"
    "releasesCache visited_page (''alice'' @ ''/'' @ ''economy'') \<noteq> None"
    "commitsCache visited_page (''alice'' @ ''/'' @ ''economy'') \<noteq> None"
    "galleryCache visited_page (''alice'' @ ''/'' @ ''economy'') \<noteq> None"
    "readmeCache no_caches (''alice'' @ ''/'' @ ''economy'') = None"
    by code_simp+
  have v0: "slot_value (galleryContent ?g) = Some []"
    "slot_value (readme (open_page visited_page ''alice'' ''economy'')) = Some ''''"
    by code_simp+
  note i1 = lazy_fetch_idempotent [OF t0(3) t1(1), where decode = no_decode
      and api = refusing_api and alive = True and caches = visited_page
      and ow = "''alice''" and nm = "''economy''"]
  note i2 = lazy_fetch_idempotent [OF t0(1) t1(1), where decode = no_decode
      and api = bare_api and alive = True and decode' = no_decode and api' = refusing_api
      and alive' = True and decode'' = no_decode and api'' = refusing_api and alive'' = True]
  note i3 = lazy_fetch_idempotent [OF t0(2) t1(2), where decode = no_decode
      and api = refusing_api and alive = True and decode' = no_decode and api' = bare_api
      and alive' = True and decode'' = no_decode and api'' = bare_api and alive'' = True
      and caches = no_caches and ow = "''alice''" and nm = "''economy''"]
  from l0(3) i1 have a: "activate_tab no_decode refusing_api True Gallery_tab visited_page
     = ([], visited_page\<lparr>tab := Gallery_tab\<rparr>)"
    by (simp only: simp_thms)
  from l0(1) q0(1) i2
  have b: "take 1 (fst (activate_tab no_decode bare_api True Gallery_tab fresh_page))
       = [Repo_gallery ''alice'' ''economy'']"
    by (simp only: simp_thms)
  from l0(1) n0(1) i2
  have "activate_tab no_decode refusing_api True Gallery_tab
          (snd (activate_tab no_decode refusing_api True Versions_tab ?g))
        = ([], snd (activate_tab no_decode refusing_api True Versions_tab ?g)
                 \<lparr>tab := Gallery_tab\<rparr>)"
    by (simp only: simp_thms)
  then have c: "fst (activate_tab no_decode refusing_api True Gallery_tab
          (snd (activate_tab no_decode refusing_api True Versions_tab ?g))) = []"
    by (simp only: fst_conv)
  from l0(2) n0(2) i3 have d: "\<not> resource_loaded Versions_tab ?v"
    by (simp only: simp_thms)
  from l0(2) n0(2) q0(2) i3
  have e: "take 1 (fst (activate_tab no_decode bare_api True Versions_tab
                    (snd (activate_tab no_decode bare_api True Gallery_tab ?v))))
       = [Repo_releases_page ''alice'' ''economy'' 25]"
    by (simp only: simp_thms)
  from t0(4) i2 have f: "activate_tab no_decode bare_api True Readme_tab fresh_page
       = ([], fresh_page)"
    by (simp only: simp_thms)
  from c0(1-4) i1
  have g: "mount no_decode refusing_api True visited_page ''alice'' ''economy''
       = ([], open_page visited_page ''alice'' ''economy'')"
    "resource_loaded Versions_tab (open_page visited_page ''alice'' ''economy'')"
    "resource_loaded Changelog_tab (open_page visited_page ''alice'' ''economy'')"
    "resource_loaded Gallery_tab (open_page visited_page ''alice'' ''economy'')"
    by (simp_all only: simp_thms)
  from c0(5) i3
  have h: "take 1 (fst (mount no_decode refusing_api True no_caches ''alice'' ''economy''))
       = [Repo_readme ''alice'' ''economy'']"
    by (simp only: simp_thms)
  from a b c d e f g h v0 show ?thesis by (simp only: simp_thms)
qed

text \<open>
  Claim C10, as the code has it. The candidate loop of the direct design counts up to
  \<^verbatim>\<open>total_count\<close> and reads \<^verbatim>\<open>items[i]\<close>. When \<^verbatim>\<open>total_count\<close> does not exceed the
  number of items, no read is out of range, so the loader never fails on an absent entry;
  it returns a list exactly when every candidate it reaches is answered, and otherwise
  the exception of a rejected request or of an unparsable body ends the load. The
  condition is needed: when \<^verbatim>\<open>total_count\<close> exceeds the number of items, the loader
  reads the absent entry and fails with a \<^verbatim>\<open>TypeError\<close>, exactly when every candidate
  before it is answered.
\<close>

theorem candidate_loop_index_bounds:
  assumes "\<not> cache_valid now st"
    and "get_search net = Response status (Some result)" and "is_ok status"
  shows "(total_count result \<le> int (length (items result))
            \<longrightarrow> fst (fetchPlugins_direct net now st) \<noteq> Inl TypeError)
         \<and> (total_count result \<le> int (length (items result))
            \<longrightarrow> (\<exists>plugins. fst (fetchPlugins_direct net now st) = Inr (Some plugins))
                = (\<forall>repo\<in>set (take (nat (total_count result)) (items result)).
                     answered net repo))
         \<and> (total_count result \<le> int (length (items result))
            \<longrightarrow> (\<exists>e. fst (fetchPlugins_direct net now st) = Inl e)
                = (\<exists>repo\<in>set (take (nat (total_count result)) (items result)).
                     \<not> answered net repo))
         \<and> (int (length (items result)) < total_count result
            \<longrightarrow> (fst (fetchPlugins_direct net now st) = Inl TypeError)
                = (\<forall>repo\<in>set (items result). answered net repo))"
proof -
  let ?reached = "take (nat (total_count result)) (items result)"
  note loaded = fetchPlugins_direct_collect [OF assms]
  have a: "fst (fetchPlugins_direct net now st) \<noteq> Inl TypeError"
    if "total_count result \<le> int (length (items result))"
    using that loaded collect_no_TypeError [of net ?reached]
    by (auto split: sum.splits)
  have b: "(\<exists>plugins. fst (fetchPlugins_direct net now st) = Inr (Some plugins))
           = (\<forall>repo\<in>set ?reached. answered net repo)"
    if "total_count result \<le> int (length (items result))"
    using that loaded collect_Inr_iff [of net ?reached]
    by (auto split: sum.splits)
  have c: "(\<exists>e. fst (fetchPlugins_direct net now st) = Inl e)
           = (\<exists>repo\<in>set ?reached. \<not> answered net repo)"
    if "total_count result \<le> int (length (items result))"
    using that loaded collect_Inr_iff [of net ?reached]
    by (auto split: sum.splits)
  have d: "(fst (fetchPlugins_direct net now st) = Inl TypeError)
           = (\<forall>repo\<in>set (items result). answered net repo)"
    if "int (length (items result)) < total_count result"
  proof -
    from that have "?reached = items result" by simp
    with that loaded collect_Inr_iff [of net "items result"]
      collect_no_TypeError [of net "items result"]
    show ?thesis by (auto split: sum.splits)
  qed
  from a b c d show ?thesis by blast
qed

theorem candidate_loop_index_bounds_witness:
  "fst (fetchPlugins_direct sample_github start_time initial_loader) \<noteq> Inl TypeError
   \<and> (\<exists>plugins. fst (fetchPlugins_direct sample_github start_time initial_loader)
                  = Inr (Some plugins))
   \<and> (\<exists>e. fst (fetchPlugins_direct rejecting_github start_time initial_loader) = Inl e)
   \<and> fst (fetchPlugins_direct rejecting_github start_time initial_loader) \<noteq> Inl TypeError
   \<and> fst (fetchPlugins_direct overcount_github start_time initial_loader) = Inl TypeError
   \<and> fst (fetchPlugins_direct overcount_rejecting_github start_time initial_loader)
       \<noteq> Inl TypeError"
proof -
  let ?items = "[repo_one, repo_two, repo_three, repo_four]"
  let ?result = "\<lparr>total_count = 4, incomplete_results = False, items = ?items\<rparr>"
  let ?over = "\<lparr>total_count = 5, incomplete_results = False, items = ?items\<rparr>"
  have nv: "\<not> cache_valid start_time (initial_loader :: (string, unit) loader)"
    by (simp add: cache_valid_def initial_loader_def)
  have ok: "is_ok 200"
    by (simp add: is_ok_def)
  have s1: "get_search sample_github = Response 200 (Some ?result)"
    by (simp add: sample_github_def)
  have s2: "get_search rejecting_github = Response 200 (Some ?result)"
    by (simp add: rejecting_github_def sample_github_def)
  have s3: "get_search overcount_github = Response 200 (Some ?over)"
    by (simp add: overcount_github_def)
  have s4: "get_search overcount_rejecting_github = Response 200 (Some ?over)"
    by (simp add: overcount_rejecting_github_def)
  have c1: "\<forall>repo\<in>set ?items. answered sample_github repo"
    by code_simp
  have c2: "\<exists>repo\<in>set ?items. \<not> answered rejecting_github repo"
    by code_simp
  have c3: "\<forall>repo\<in>set ?items. answered overcount_github repo"
    by code_simp
  have c4: "\<not> (\<forall>repo\<in>set ?items. answered overcount_rejecting_github repo)"
    by code_simp
  from c1 candidate_loop_index_bounds [OF nv s1 ok]
  have "fst (fetchPlugins_direct sample_github start_time initial_loader) \<noteq> Inl TypeError"
    and "\<exists>plugins. fst (fetchPlugins_direct sample_github start_time initial_loader)
                  = Inr (Some plugins)"
    by simp_all
  moreover from c2 candidate_loop_index_bounds [OF nv s2 ok]
  have "\<exists>e. fst (fetchPlugins_direct rejecting_github start_time initial_loader) = Inl e"
    and "fst (fetchPlugins_direct rejecting_github start_time initial_loader) \<noteq> Inl TypeError"
    by simp_all
  moreover from c3 candidate_loop_index_bounds [OF nv s3 ok]
  have "fst (fetchPlugins_direct overcount_github start_time initial_loader) = Inl TypeError"
    by simp
  moreover from c4 candidate_loop_index_bounds [OF nv s4 ok]
  have "fst (fetchPlugins_direct overcount_rejecting_github start_time initial_loader)
          \<noteq> Inl TypeError"
    by simp
  ultimately show ?thesis by (simp only: simp_thms)
qed

text \<open>
  The claim as it is written fails at a rejected request: the search answer names four
  candidates and holds four items, the release-list request of the third is rejected, and
  the loader does not complete normally: it throws the network error.
\<close>

theorem rejected_request_counterexample:
  "get_search rejecting_github =
     Response 200 (Some \<lparr>total_count = 4, incomplete_results = False,
                          items = [repo_one, repo_two, repo_three, repo_four]\<rparr>)
   \<and> is_ok 200
   \<and> (4 :: int) \<le> int (length [repo_one, repo_two, repo_three, repo_four])
   \<and> get_releases rejecting_github (full_name repo_three) = Rejected
   \<and> fst (fetchPlugins_direct rejecting_github start_time initial_loader)
       = Inl NetworkError"
proof (intro conjI)
  show "get_search rejecting_github =
     Response 200 (Some \<lparr>total_count = 4, incomplete_results = False,
                          items = [repo_one, repo_two, repo_three, repo_four]\<rparr>)"
    by (simp add: rejecting_github_def sample_github_def)
  show "is_ok 200"
    by code_simp
  show "(4 :: int) \<le> int (length [repo_one, repo_two, repo_three, repo_four])"
    by simp
  show "get_releases rejecting_github (full_name repo_three) = Rejected"
    by code_simp
  show "fst (fetchPlugins_direct rejecting_github start_time initial_loader)
       = Inl NetworkError"
    by code_simp
qed

end
